theory Spec2Isabelle
  imports Complex_Main
begin

section \<open>Python values and exceptions\<close>

text \<open>
  The simulator is written in Python. A float is a real number or NaN: NaN is part of
  the model because every comparison with it is false, which changes the branch the
  code takes. Rounding, and the infinities that only overflow or the token \<open>inf\<close>
  produce, are outside the model: a float that is not NaN is its real value.
\<close>

datatype pyfloat = Fl real | NaN

text \<open>
  Arithmetic on floats: NaN if an operand is NaN. The simulator divides by a number it
  has tested to be positive, or by \<open>1 + exp(...)\<close>; where it may divide by zero the
  model tests the divisor itself. The comparisons \<open><\<close> and \<open><=\<close> are those of Python:
  false if an operand is NaN.
\<close>

instantiation pyfloat :: "{plus, minus, times, uminus, inverse, ord}"
begin

definition plus_pyfloat :: "pyfloat \<Rightarrow> pyfloat \<Rightarrow> pyfloat" where
  "plus_pyfloat a b = (case (a, b) of (Fl x, Fl y) \<Rightarrow> Fl (x + y) | _ \<Rightarrow> NaN)"

definition minus_pyfloat :: "pyfloat \<Rightarrow> pyfloat \<Rightarrow> pyfloat" where
  "minus_pyfloat a b = (case (a, b) of (Fl x, Fl y) \<Rightarrow> Fl (x - y) | _ \<Rightarrow> NaN)"

definition times_pyfloat :: "pyfloat \<Rightarrow> pyfloat \<Rightarrow> pyfloat" where
  "times_pyfloat a b = (case (a, b) of (Fl x, Fl y) \<Rightarrow> Fl (x * y) | _ \<Rightarrow> NaN)"

definition uminus_pyfloat :: "pyfloat \<Rightarrow> pyfloat" where
  "uminus_pyfloat a = (case a of Fl x \<Rightarrow> Fl (- x) | NaN \<Rightarrow> NaN)"

definition inverse_pyfloat :: "pyfloat \<Rightarrow> pyfloat" where
  "inverse_pyfloat a = (case a of Fl x \<Rightarrow> Fl (inverse x) | NaN \<Rightarrow> NaN)"

definition divide_pyfloat :: "pyfloat \<Rightarrow> pyfloat \<Rightarrow> pyfloat" where
  "divide_pyfloat a b = (case (a, b) of (Fl x, Fl y) \<Rightarrow> Fl (x / y) | _ \<Rightarrow> NaN)"

definition less_eq_pyfloat :: "pyfloat \<Rightarrow> pyfloat \<Rightarrow> bool" where
  "less_eq_pyfloat a b = (case (a, b) of (Fl x, Fl y) \<Rightarrow> x \<le> y | _ \<Rightarrow> False)"

definition less_pyfloat :: "pyfloat \<Rightarrow> pyfloat \<Rightarrow> bool" where
  "less_pyfloat a b = (case (a, b) of (Fl x, Fl y) \<Rightarrow> x < y | _ \<Rightarrow> False)"

instance ..

end

text \<open>\<open>np.exp\<close> on a float.\<close>

definition fexp :: "pyfloat \<Rightarrow> pyfloat" where
  "fexp a = (case a of Fl x \<Rightarrow> Fl (exp x) | NaN \<Rightarrow> NaN)"

text \<open>
  The builtins \<open>max(a, b)\<close> and \<open>min(a, b)\<close>: the first argument is kept unless the
  second is greater (smaller), so a NaN in the first place stays and a NaN in the
  second place is dropped.
\<close>

definition py_max :: "pyfloat \<Rightarrow> pyfloat \<Rightarrow> pyfloat" where
  "py_max a b = (if a < b then b else a)"

definition py_min :: "pyfloat \<Rightarrow> pyfloat \<Rightarrow> pyfloat" where
  "py_min a b = (if b < a then b else a)"

text \<open>
  An exception is a value of type \<open>pyerr\<close>, and a computation that may raise returns
  \<open>pyerr + 'a\<close> with \<open>Inl\<close> for the exception. \<open>NaNKey\<close> is not an exception of Python:
  it marks the point where the program stores the key NaN in a \<open>SortedDict\<close>. From
  there on the order of the dictionary is what the bisection of the library makes of
  comparisons that are all false; the model does not follow it and stops with this
  mark.
\<close>

datatype pyerr =
  ValueError | TypeError | KeyError | IndexError | AttributeError | ZeroDivisionError
  | ModelError | NaNKey

text \<open>A value that travels through a JSON message or a feature dictionary. \<open>PyNum\<close> is
  a number that is not NaN, \<open>PyNaN\<close> the float NaN.\<close>

datatype pyval =
  PyNone
  | PyBool bool
  | PyNum real
  | PyNaN
  | PyStr string
  | PyList "pyval list"
  | PyDict "(string \<times> pyval) list"

definition of_float :: "pyfloat \<Rightarrow> pyval" where
  "of_float a = (case a of Fl x \<Rightarrow> PyNum x | NaN \<Rightarrow> PyNaN)"

text \<open>Arithmetic on a value: numbers (and booleans, which Python counts as 0 and 1)
  take part, every other kind raises \<open>TypeError\<close>.\<close>

fun as_num :: "pyval \<Rightarrow> pyerr + pyfloat" where
  "as_num (PyNum r) = Inr (Fl r)"
| "as_num PyNaN = Inr NaN"
| "as_num (PyBool b) = Inr (Fl (if b then 1 else 0))"
| "as_num PyNone = Inl TypeError"
| "as_num (PyStr s) = Inl TypeError"
| "as_num (PyList xs) = Inl TypeError"
| "as_num (PyDict kvs) = Inl TypeError"

text \<open>Sequencing of computations that may raise: the first exception ends the block.\<close>

definition ebind :: "pyerr + 'a \<Rightarrow> ('a \<Rightarrow> pyerr + 'b) \<Rightarrow> pyerr + 'b" where
  "ebind m f = (case m of Inl e \<Rightarrow> Inl e | Inr x \<Rightarrow> f x)"

text \<open>\<open>d.get(key, default)\<close> on a dictionary.\<close>

definition dict_get :: "(string \<rightharpoonup> 'a) \<Rightarrow> string \<Rightarrow> 'a \<Rightarrow> 'a" where
  "dict_get d k dflt = (case d k of None \<Rightarrow> dflt | Some v \<Rightarrow> v)"

text \<open>\<open>str.lower()\<close> on the ASCII letters.\<close>

definition char_lower :: "char \<Rightarrow> char" where
  "char_lower c =
     (let n = (of_char c :: nat) in if 65 \<le> n \<and> n \<le> 90 then char_of (n + 32) else c)"

definition str_lower :: "string \<Rightarrow> string" where
  "str_lower s = map char_lower s"

section \<open>The maker/taker model (models/maker\_taker\_model.py)\<close>

text \<open>
  \<open>MakerTakerModel\<close> holds the flag \<open>is_fitted\<close>, the default coefficients, and a
  scikit-learn scaler and regression. The library's prediction
  (\<open>scaler.transform\<close> followed by \<open>predict_proba(...)[0, 1]\<close>) is the field
  \<open>mt_predict_proba\<close>: it receives the feature vector and returns a float or raises.
\<close>

record maker_taker_model =
  mt_is_fitted :: bool
  mt_predict_proba :: "pyval list \<Rightarrow> pyerr + pyfloat"
  mt_intercept :: real
  mt_coef_order_type_market :: real
  mt_coef_spread_percentage :: real
  mt_coef_order_size_to_depth_ratio :: real
  mt_coef_volatility :: real

definition MakerTakerModel_init :: maker_taker_model where
  "MakerTakerModel_init =
     \<lparr> mt_is_fitted = False,
       mt_predict_proba = (\<lambda>_. Inl ModelError),
       mt_intercept = 2,
       mt_coef_order_type_market = 2,
       mt_coef_spread_percentage = 1/2,
       mt_coef_order_size_to_depth_ratio = 8/10,
       mt_coef_volatility = 3/10 \<rparr>"

record maker_taker_result =
  maker :: pyfloat
  taker :: pyfloat
  mt_features_used :: "(real \<times> pyval \<times> pyfloat \<times> pyfloat) option"
  mt_error :: "pyerr option"

text \<open>
  The body of the \<open>try\<close> block of \<open>predict_proportion\<close>. A feature that is not a
  number raises at the first arithmetic on it (or already in \<open>np.array\<close>); every
  exception of the block reaches the same handler. A NaN raises nowhere.
\<close>

definition predict_proportion_try ::
  "maker_taker_model \<Rightarrow> (string \<rightharpoonup> pyval) \<Rightarrow> pyfloat \<Rightarrow> string \<Rightarrow> pyfloat
     \<Rightarrow> pyerr + maker_taker_result" where
  "predict_proportion_try m order_book_features quantity_usd order_type volatility =
     (let spread_percentage = dict_get order_book_features ''spread_percentage'' (PyNum (1/100));
          bid_depth = dict_get order_book_features ''bid_depth_5pct'' (PyNum 1);
          ask_depth = dict_get order_book_features ''ask_depth_5pct'' (PyNum 1)
      in ebind (as_num bid_depth) (\<lambda>bd.
         ebind (as_num ask_depth) (\<lambda>ad.
         (let avg_depth = (bd + ad) / Fl 2;
              ratio0 = (if Fl 0 < avg_depth then quantity_usd / avg_depth else Fl 1);
              order_size_to_depth_ratio = py_min ratio0 (Fl 1);
              order_type_market = (if str_lower order_type = ''market'' then 1 else 0 :: real);
              features = [PyNum order_type_market, spread_percentage,
                          of_float order_size_to_depth_ratio, of_float volatility]
          in ebind
               (if mt_is_fitted m then mt_predict_proba m features
                else ebind (as_num spread_percentage) (\<lambda>sp.
                       (let z = Fl (mt_intercept m)
                              + Fl (mt_coef_order_type_market m) * Fl order_type_market
                              + Fl (mt_coef_spread_percentage m) * sp
                              + Fl (mt_coef_order_size_to_depth_ratio m)
                                  * order_size_to_depth_ratio
                              + Fl (mt_coef_volatility m) * volatility
                        in Inr (Fl 1 / (Fl 1 + fexp (- z))))))
               (\<lambda>p.
                 (let taker_probability =
                        (if str_lower order_type = ''market'' then py_max p (Fl (9/10)) else p);
                      maker_probability = Fl 1 - taker_probability
                  in Inr \<lparr> maker = maker_probability, taker = taker_probability,
                           mt_features_used =
                             Some (order_type_market, spread_percentage,
                                   order_size_to_depth_ratio, volatility),
                           mt_error = None \<rparr>))))))"

text \<open>\<open>predict_proportion\<close>: the \<open>try\<close> block and its \<open>except Exception\<close> handler.\<close>

definition predict_proportion ::
  "maker_taker_model \<Rightarrow> (string \<rightharpoonup> pyval) \<Rightarrow> pyfloat \<Rightarrow> string \<Rightarrow> pyfloat
     \<Rightarrow> maker_taker_result" where
  "predict_proportion m order_book_features quantity_usd order_type volatility =
     (case predict_proportion_try m order_book_features quantity_usd order_type volatility of
        Inr r \<Rightarrow> r
      | Inl e \<Rightarrow>
          (if str_lower order_type = ''market''
           then \<lparr> maker = Fl 0, taker = Fl 1, mt_features_used = None, mt_error = Some e \<rparr>
           else \<lparr> maker = Fl (8/10), taker = Fl (2/10), mt_features_used = None,
                  mt_error = Some e \<rparr>))"

section \<open>The slippage model (models/slippage\_model.py)\<close>

text \<open>
  \<open>SlippageModel\<close>: as above, the fitted regression of scikit-learn
  (\<open>scaler.transform\<close> and \<open>model.predict(...)[0]\<close>) is the field \<open>sl_predict\<close>.
\<close>

record slippage_model =
  sl_is_fitted :: bool
  sl_predict :: "pyval list \<Rightarrow> pyerr + pyfloat"
  sl_intercept :: real
  sl_coef_spread_percentage :: real
  sl_coef_order_size_to_depth_ratio :: real
  sl_coef_volume_imbalance :: real
  sl_coef_volatility :: real

definition SlippageModel_init :: slippage_model where
  "SlippageModel_init =
     \<lparr> sl_is_fitted = False,
       sl_predict = (\<lambda>_. Inl ModelError),
       sl_intercept = 1/100,
       sl_coef_spread_percentage = 1/2,
       sl_coef_order_size_to_depth_ratio = 8/10,
       sl_coef_volume_imbalance = - (2/10),
       sl_coef_volatility = 3/10 \<rparr>"

record slippage_result =
  slippage_percentage :: real
  slippage_usd :: real
  sl_features_used :: "(pyval \<times> pyfloat \<times> pyval \<times> pyfloat) option"
  sl_error :: "pyerr option"

text \<open>Unary minus on a value (\<open>-x\<close>).\<close>

definition py_neg :: "pyval \<Rightarrow> pyerr + pyval" where
  "py_neg v = ebind (as_num v) (\<lambda>r. Inr (of_float (- r)))"

text \<open>
  The argument \<open>quantity_usd\<close> of \<open>predict_slippage\<close> is a number: the property
  proved of it is about \<open>quantity_usd \<ge> 0\<close>, which no NaN satisfies.
\<close>

text \<open>\<open>max(0.0, x)\<close>: 0.0 is kept unless \<open>x\<close> is greater, so the result is never NaN.\<close>

definition max_zero :: "pyfloat \<Rightarrow> real" where
  "max_zero x = (case py_max (Fl 0) x of Fl r \<Rightarrow> r | NaN \<Rightarrow> 0)"

definition predict_slippage_try ::
  "slippage_model \<Rightarrow> (string \<rightharpoonup> pyval) \<Rightarrow> real \<Rightarrow> bool \<Rightarrow> pyfloat
     \<Rightarrow> pyerr + slippage_result" where
  "predict_slippage_try m order_book_features quantity_usd is_buy volatility =
     (let spread_percentage = dict_get order_book_features ''spread_percentage'' (PyNum (1/100))
      in ebind
           (if is_buy
            then Inr (dict_get order_book_features ''ask_depth_5pct'' (PyNum 1),
                      dict_get order_book_features ''volume_imbalance'' (PyNum 0))
            else ebind (py_neg (dict_get order_book_features ''volume_imbalance'' (PyNum 0)))
                   (\<lambda>vi. Inr (dict_get order_book_features ''bid_depth_5pct'' (PyNum 1), vi)))
           (\<lambda>(depth, volume_imbalance).
         ebind (as_num depth) (\<lambda>d.
         (let ratio0 = (if Fl 0 < d then Fl quantity_usd / d else Fl 1);
              order_size_to_depth_ratio = py_min ratio0 (Fl 1);
              features = [spread_percentage, of_float order_size_to_depth_ratio,
                          volume_imbalance, of_float volatility]
          in ebind
               (if sl_is_fitted m then sl_predict m features
                else ebind (as_num spread_percentage) (\<lambda>sp.
                     ebind (as_num volume_imbalance) (\<lambda>vi.
                       Inr (Fl (sl_intercept m)
                            + Fl (sl_coef_spread_percentage m) * sp
                            + Fl (sl_coef_order_size_to_depth_ratio m)
                                * order_size_to_depth_ratio
                            + Fl (sl_coef_volume_imbalance m) * vi
                            + Fl (sl_coef_volatility m) * volatility))))
               (\<lambda>predicted.
                 (let slippage_percentage = max_zero predicted;
                      slippage_usd = quantity_usd * slippage_percentage / 100
                  in Inr \<lparr> slippage_percentage = slippage_percentage,
                           slippage_usd = slippage_usd,
                           sl_features_used =
                             Some (spread_percentage, order_size_to_depth_ratio,
                                   volume_imbalance, volatility),
                           sl_error = None \<rparr>))))))"

definition predict_slippage ::
  "slippage_model \<Rightarrow> (string \<rightharpoonup> pyval) \<Rightarrow> real \<Rightarrow> bool \<Rightarrow> pyfloat \<Rightarrow> slippage_result"
  where
  "predict_slippage m order_book_features quantity_usd is_buy volatility =
     (case predict_slippage_try m order_book_features quantity_usd is_buy volatility of
        Inr r \<Rightarrow> r
      | Inl e \<Rightarrow> \<lparr> slippage_percentage = 5/100,
                  slippage_usd = quantity_usd * (5/10000),
                  sl_features_used = None,
                  sl_error = Some e \<rparr>)"

section \<open>The fee model (models/fee\_model.py)\<close>

text \<open>Fee rates of a tier: maker rate and taker rate.\<close>

record fee_rates =
  maker_rate :: real
  taker_rate :: real

definition OKX_FEE_TIERS :: "string \<rightharpoonup> fee_rates" where
  "OKX_FEE_TIERS = map_of
     [(''Tier 1'', \<lparr> maker_rate = 8/10000, taker_rate = 10/10000 \<rparr>),
      (''Tier 2'', \<lparr> maker_rate = 6/10000, taker_rate = 8/10000 \<rparr>),
      (''Tier 3'', \<lparr> maker_rate = 4/10000, taker_rate = 6/10000 \<rparr>),
      (''Tier 4'', \<lparr> maker_rate = 2/10000, taker_rate = 4/10000 \<rparr>),
      (''Tier 5'', \<lparr> maker_rate = 0, taker_rate = 2/10000 \<rparr>)]"

text \<open>\<open>self.exchange_fee_tiers\<close> as \<open>FeeModel.__init__\<close> sets it.\<close>

definition exchange_fee_tiers :: "string \<rightharpoonup> (string \<rightharpoonup> fee_rates)" where
  "exchange_fee_tiers = map_of [(''OKX'', OKX_FEE_TIERS)]"

record fee_result =
  maker_fee_usd :: real
  taker_fee_usd :: real
  total_fee_usd :: real
  maker_fee_rate :: real
  taker_fee_rate :: real
  maker_proportion :: real
  taker_proportion :: real

text \<open>\<open>d[key]\<close> on a dictionary: a missing key raises \<open>KeyError\<close>.\<close>

definition dict_item :: "(string \<rightharpoonup> 'a) \<Rightarrow> string \<Rightarrow> pyerr + 'a" where
  "dict_item d k = (case d k of None \<Rightarrow> Inl KeyError | Some v \<Rightarrow> Inr v)"

text \<open>
  \<open>calculate_fees\<close>. The optional argument \<open>maker_taker_proportion\<close> is \<open>None\<close> or a
  dictionary; the function reads its entries \<open>maker\<close> and \<open>taker\<close> only.
\<close>

definition calculate_fees ::
  "string \<Rightarrow> string \<Rightarrow> string \<Rightarrow> real \<Rightarrow> (string \<rightharpoonup> real) option \<Rightarrow> pyerr + fee_result" where
  "calculate_fees exchange fee_tier order_type quantity_usd maker_taker_proportion =
     (let exchange1 = (if exchange_fee_tiers exchange = None then ''OKX'' else exchange)
      in ebind (dict_item exchange_fee_tiers exchange1) (\<lambda>exchange_tiers.
         (let fee_tier1 = (if exchange_tiers fee_tier = None then ''Tier 1'' else fee_tier)
          in ebind (dict_item exchange_tiers fee_tier1) (\<lambda>rates.
             (let maker_fee_rate = maker_rate rates;
                  taker_fee_rate = taker_rate rates;
                  (maker_proportion, taker_proportion) =
                    (case maker_taker_proportion of
                       None \<Rightarrow>
                         (if str_lower order_type = ''market'' then (0, 1) else (1/2, 1/2))
                     | Some d \<Rightarrow>
                         (let mp = dict_get d ''maker'' 0;
                              tp = dict_get d ''taker'' 1;
                              total_proportion = mp + tp
                          in if total_proportion > 0
                             then (mp / total_proportion, tp / total_proportion)
                             else (mp, tp)));
                  maker_fee_usd = quantity_usd * maker_proportion * maker_fee_rate;
                  taker_fee_usd = quantity_usd * taker_proportion * taker_fee_rate;
                  total_fee_usd = maker_fee_usd + taker_fee_usd
              in Inr \<lparr> maker_fee_usd = maker_fee_usd,
                       taker_fee_usd = taker_fee_usd,
                       total_fee_usd = total_fee_usd,
                       maker_fee_rate = maker_fee_rate,
                       taker_fee_rate = taker_fee_rate,
                       maker_proportion = maker_proportion,
                       taker_proportion = taker_proportion \<rparr>)))))"

text \<open>The rates \<open>calculate_fees\<close> ends up with for a requested tier: the table of
  \<open>exchange_fee_tiers\<close> holds OKX only, so the exchange plays no part.\<close>

definition resolved_rates :: "string \<Rightarrow> fee_rates" where
  "resolved_rates fee_tier =
     (case OKX_FEE_TIERS fee_tier of
        Some r \<Rightarrow> r
      | None \<Rightarrow> \<lparr> maker_rate = 8/10000, taker_rate = 10/10000 \<rparr>)"

section \<open>Python operations on values\<close>

text \<open>Truth value of a value (\<open>if v:\<close>).\<close>

fun truthy :: "pyval \<Rightarrow> bool" where
  "truthy PyNone = False"
| "truthy (PyBool b) = b"
| "truthy (PyNum r) = (r \<noteq> 0)"
| "truthy PyNaN = True"
| "truthy (PyStr s) = (s \<noteq> [])"
| "truthy (PyList xs) = (xs \<noteq> [])"
| "truthy (PyDict kvs) = (kvs \<noteq> [])"

text \<open>\<open>for x in v\<close>: the elements of a list, the characters of a string, the keys of
  a dictionary; anything else is not iterable.\<close>

fun py_iter :: "pyval \<Rightarrow> pyerr + pyval list" where
  "py_iter (PyList xs) = Inr xs"
| "py_iter (PyStr s) = Inr (map (\<lambda>c. PyStr [c]) s)"
| "py_iter (PyDict kvs) = Inr (map PyStr (remdups (map fst kvs)))"
| "py_iter PyNone = Inl TypeError"
| "py_iter (PyBool b) = Inl TypeError"
| "py_iter (PyNum r) = Inl TypeError"
| "py_iter PyNaN = Inl TypeError"

text \<open>\<open>len(v)\<close>.\<close>

fun py_len :: "pyval \<Rightarrow> pyerr + nat" where
  "py_len (PyList xs) = Inr (length xs)"
| "py_len (PyStr s) = Inr (length s)"
| "py_len (PyDict kvs) = Inr (length (remdups (map fst kvs)))"
| "py_len PyNone = Inl TypeError"
| "py_len (PyBool b) = Inl TypeError"
| "py_len (PyNum r) = Inl TypeError"
| "py_len PyNaN = Inl TypeError"

text \<open>\<open>v[i]\<close> for an index \<open>i \<ge> 0\<close>. The keys of a dictionary are strings, so an
  integer index is a missing key.\<close>

fun py_getitem :: "pyval \<Rightarrow> nat \<Rightarrow> pyerr + pyval" where
  "py_getitem (PyList xs) i = (if i < length xs then Inr (xs ! i) else Inl IndexError)"
| "py_getitem (PyStr s) i = (if i < length s then Inr (PyStr [s ! i]) else Inl IndexError)"
| "py_getitem (PyDict kvs) i = Inl KeyError"
| "py_getitem PyNone i = Inl TypeError"
| "py_getitem (PyBool b) i = Inl TypeError"
| "py_getitem (PyNum r) i = Inl TypeError"
| "py_getitem PyNaN i = Inl TypeError"

text \<open>
  \<open>float(v)\<close>. The conversion of a string is the builtin of the Python runtime; it is
  the parameter \<open>pf\<close>, which returns the float a string denotes (NaN for the token
  \<open>nan\<close>) or \<open>None\<close> where \<open>float\<close> raises \<open>ValueError\<close>.
\<close>

fun py_float :: "(string \<Rightarrow> pyfloat option) \<Rightarrow> pyval \<Rightarrow> pyerr + pyfloat" where
  "py_float pf (PyNum r) = Inr (Fl r)"
| "py_float pf PyNaN = Inr NaN"
| "py_float pf (PyBool b) = Inr (Fl (if b then 1 else 0))"
| "py_float pf (PyStr s) = (case pf s of Some r \<Rightarrow> Inr r | None \<Rightarrow> Inl ValueError)"
| "py_float pf PyNone = Inl TypeError"
| "py_float pf (PyList xs) = Inl TypeError"
| "py_float pf (PyDict kvs) = Inl TypeError"

text \<open>\<open>a, b = v\<close>: unpacking into exactly two names.\<close>

definition unpack2 :: "pyval \<Rightarrow> pyerr + (pyval \<times> pyval)" where
  "unpack2 v =
     ebind (py_iter v) (\<lambda>xs. case xs of [a, b] \<Rightarrow> Inr (a, b) | _ \<Rightarrow> Inl ValueError)"

section \<open>SortedDict\<close>

text \<open>
  A \<open>SortedDict\<close> of the sortedcontainers library whose keys are floats other than NaN
  is the list of its items in iteration order, that is in ascending key order.
  \<open>sd_setitem\<close> is \<open>d[k] = v\<close>; \<open>d.clear()\<close> gives \<open>[]\<close>; \<open>d.popitem(index=0)\<close>
  drops the head, \<open>d.popitem(index=-1)\<close> the last item, and both raise \<open>KeyError\<close> on
  an empty dictionary; \<open>d.peekitem(0)\<close> is \<open>hd\<close> and \<open>d.peekitem(-1)\<close> is \<open>last\<close>.
\<close>

fun sd_setitem :: "real \<Rightarrow> 'v \<Rightarrow> (real \<times> 'v) list \<Rightarrow> (real \<times> 'v) list" where
  "sd_setitem k v [] = [(k, v)]"
| "sd_setitem k v ((k', v') # xs) =
     (if k < k' then (k, v) # (k', v') # xs
      else if k = k' then (k, v) # xs
      else (k', v') # sd_setitem k v xs)"

section \<open>The order book of the simulation engine (data/order\_book.py)\<close>

text \<open>Both sides map a price to a quantity. A quantity may be NaN.\<close>

record order_book =
  ob_symbol :: string
  ob_max_depth :: int
  ob_asks :: "(real \<times> pyfloat) list"
  ob_bids :: "(real \<times> pyfloat) list"
  ob_last_update_time :: pyval
  ob_is_initialized :: bool
  ob_mid_price :: "real option"

definition OrderBook_init :: "string \<Rightarrow> int \<Rightarrow> order_book" where
  "OrderBook_init symbol max_depth =
     \<lparr> ob_symbol = symbol, ob_max_depth = max_depth, ob_asks = [], ob_bids = [],
       ob_last_update_time = PyNum 0, ob_is_initialized = False, ob_mid_price = None \<rparr>"

text \<open>\<open>price = float(level[0]); quantity = float(level[1])\<close>.\<close>

definition parse_level ::
  "(string \<Rightarrow> pyfloat option) \<Rightarrow> pyval \<Rightarrow> pyerr + (pyfloat \<times> pyfloat)" where
  "parse_level pf level =
     ebind (py_getitem level 0) (\<lambda>a.
     ebind (py_float pf a) (\<lambda>price.
     ebind (py_getitem level 1) (\<lambda>b.
     ebind (py_float pf b) (\<lambda>quantity. Inr (price, quantity)))))"

text \<open>
  The \<open>for\<close> loop of \<open>_update_side\<close> over the levels, on the side being rebuilt and the
  levels logged so far by \<open>logger.warning\<close>. The result is the side, the logged levels
  and the exception that ended the loop, if any: the side is mutated in place, so what
  was stored before a raise stays stored. The test \<open>quantity <= 0\<close> is false of a NaN,
  which is then stored.
\<close>

fun update_levels ::
  "(string \<Rightarrow> pyfloat option) \<Rightarrow> pyval list \<Rightarrow> (real \<times> pyfloat) list \<Rightarrow> pyval list
     \<Rightarrow> (real \<times> pyfloat) list \<times> pyval list \<times> pyerr option" where
  "update_levels pf [] side warnings = (side, warnings, None)"
| "update_levels pf (level # rest) side warnings =
     (case py_len level of
        Inl e \<Rightarrow> (side, warnings, Some e)
      | Inr n \<Rightarrow>
          if n < 2 then update_levels pf rest side warnings
          else (case parse_level pf level of
                  Inl e \<Rightarrow>
                    if e = ValueError \<or> e = TypeError
                    then update_levels pf rest side (warnings @ [level])
                    else (side, warnings, Some e)
                | Inr (price, quantity) \<Rightarrow>
                    if quantity \<le> Fl 0 then update_levels pf rest side warnings
                    else (case price of
                            NaN \<Rightarrow> (side, warnings, Some NaNKey)
                          | Fl p \<Rightarrow>
                              update_levels pf rest (sd_setitem p quantity side) warnings)))"

text \<open>\<open>while len(side) > self.max_depth: side.popitem(index=0)\<close>, for the bids.\<close>

fun trim_bids :: "int \<Rightarrow> 'a list \<Rightarrow> 'a list \<times> pyerr option" where
  "trim_bids md [] = ([], if 0 > md then Some KeyError else None)"
| "trim_bids md (x # xs) =
     (if int (length (x # xs)) > md then trim_bids md xs else (x # xs, None))"

text \<open>\<open>while len(side) > self.max_depth: side.popitem(index=-1)\<close>, for the asks.\<close>

function trim_asks :: "int \<Rightarrow> 'a list \<Rightarrow> 'a list \<times> pyerr option" where
  "trim_asks md side =
     (if int (length side) > md
      then (if side = [] then ([], Some KeyError) else trim_asks md (butlast side))
      else (side, None))"
  by pat_completeness auto
termination
  by (relation "measure (\<lambda>(md, side). length side)") auto

declare trim_asks.simps [simp del]

definition set_side :: "bool \<Rightarrow> (real \<times> pyfloat) list \<Rightarrow> order_book \<Rightarrow> order_book" where
  "set_side is_bid side b = (if is_bid then b\<lparr>ob_bids := side\<rparr> else b\<lparr>ob_asks := side\<rparr>)"

text \<open>\<open>OrderBook._update_side\<close>: the book after the call and the exception it raised,
  if any.\<close>

definition update_side ::
  "(string \<Rightarrow> pyfloat option) \<Rightarrow> pyval \<Rightarrow> bool \<Rightarrow> order_book \<Rightarrow> order_book \<times> pyerr option"
  where
  "update_side pf levels is_bid b =
     (case py_iter levels of
        Inl e \<Rightarrow> (set_side is_bid [] b, Some e)
      | Inr ls \<Rightarrow>
          (case update_levels pf ls [] [] of
             (side, warnings, Some e) \<Rightarrow> (set_side is_bid side b, Some e)
           | (side, warnings, None) \<Rightarrow>
               (let (side', err) =
                      (if is_bid then trim_bids (ob_max_depth b) side
                       else trim_asks (ob_max_depth b) side)
                in (set_side is_bid side' b, err))))"

text \<open>The levels for which a call of \<open>_update_side\<close> logs the warning ``Failed to parse
  price level''.\<close>

definition update_side_log :: "(string \<Rightarrow> pyfloat option) \<Rightarrow> pyval \<Rightarrow> pyval list" where
  "update_side_log pf levels =
     (case py_iter levels of
        Inl e \<Rightarrow> []
      | Inr ls \<Rightarrow> fst (snd (update_levels pf ls [] [])))"

text \<open>\<open>OrderBook._calculate_mid_price\<close>. A best price of 0 is falsy in
  \<open>if best_bid and best_ask\<close>.\<close>

definition calculate_mid_price :: "order_book \<Rightarrow> order_book" where
  "calculate_mid_price b =
     (if ob_bids b = [] \<or> ob_asks b = [] then b\<lparr>ob_mid_price := None\<rparr>
      else (let best_bid = fst (last (ob_bids b));
                best_ask = fst (hd (ob_asks b))
            in if best_bid \<noteq> 0 \<and> best_ask \<noteq> 0
               then b\<lparr>ob_mid_price := Some ((best_bid + best_ask) / 2)\<rparr>
               else b\<lparr>ob_mid_price := None\<rparr>))"

text \<open>
  \<open>OrderBook.update\<close> of order\_book.py. \<open>now\<close> is the reading of
  \<open>time.time() * 1000\<close>. The result is the book after the call, and the returned
  timestamp or the exception raised.
\<close>

definition ob_update ::
  "(string \<Rightarrow> pyfloat option) \<Rightarrow> real \<Rightarrow> order_book \<Rightarrow> (string \<rightharpoonup> pyval)
     \<Rightarrow> order_book \<times> (pyerr + pyval)" where
  "ob_update pf now b data =
     (let timestamp0 = dict_get data ''timestamp'' (PyNum now);
          timestamp = (case timestamp0 of
                         PyStr s \<Rightarrow> (case pf s of Some r \<Rightarrow> of_float r | None \<Rightarrow> PyNum now)
                       | v \<Rightarrow> v);
          asks = dict_get data ''asks'' (PyList []);
          (b1, e1) = (if truthy asks then update_side pf asks False b else (b, None))
      in case e1 of
           Some e \<Rightarrow> (b1, Inl e)
         | None \<Rightarrow>
             (let bids = dict_get data ''bids'' (PyList []);
                  (b2, e2) = (if truthy bids then update_side pf bids True b1 else (b1, None))
              in case e2 of
                   Some e \<Rightarrow> (b2, Inl e)
                 | None \<Rightarrow>
                     (let b3 = calculate_mid_price (b2\<lparr>ob_last_update_time := timestamp\<rparr>)
                      in (b3\<lparr>ob_is_initialized := True\<rparr>, Inr timestamp))))"

text \<open>\<open>OrderBook.get_mid_price\<close> of order\_book.py: always a number.\<close>

definition ob_get_mid_price :: "order_book \<Rightarrow> real" where
  "ob_get_mid_price b =
     (if \<not> ob_is_initialized b \<or> ob_bids b = [] \<or> ob_asks b = [] then 0
      else (case ob_mid_price b of None \<Rightarrow> 0 | Some m \<Rightarrow> if m \<noteq> 0 then m else 0))"

section \<open>The L2 order book (data/orderbook.py)\<close>

text \<open>The bids are keyed by the negated price, and both sides store the pair
  (price, quantity) as the value. A level is stored only if \<open>qty > 0\<close>, which is false
  of a NaN, so a stored quantity is a number.\<close>

record l2_book =
  l2_bids :: "(real \<times> (real \<times> real)) list"
  l2_asks :: "(real \<times> (real \<times> real)) list"
  l2_timestamp :: pyval
  l2_exchange :: pyval
  l2_symbol :: pyval
  l2_last_update_time :: "real option"

definition L2_init :: l2_book where
  "L2_init = \<lparr> l2_bids = [], l2_asks = [], l2_timestamp = PyNone, l2_exchange = PyNone,
               l2_symbol = PyNone, l2_last_update_time = None \<rparr>"

text \<open>One of the two \<open>for price_str, qty_str in ...\<close> loops of \<open>update\<close>: any
  exception ends it.\<close>

fun l2_fill ::
  "(string \<Rightarrow> pyfloat option) \<Rightarrow> bool \<Rightarrow> pyval list \<Rightarrow> (real \<times> (real \<times> real)) list
     \<Rightarrow> (real \<times> (real \<times> real)) list \<times> pyerr option" where
  "l2_fill pf is_bid [] side = (side, None)"
| "l2_fill pf is_bid (level # rest) side =
     (case ebind (unpack2 level) (\<lambda>(price_str, qty_str).
           ebind (py_float pf price_str) (\<lambda>price.
           ebind (py_float pf qty_str) (\<lambda>qty. Inr (price, qty)))) of
        Inl e \<Rightarrow> (side, Some e)
      | Inr (price, qty) \<Rightarrow>
          (case qty of
             NaN \<Rightarrow> l2_fill pf is_bid rest side
           | Fl q \<Rightarrow>
               if q > 0
               then (case price of
                       NaN \<Rightarrow> (side, Some NaNKey)
                     | Fl p \<Rightarrow>
                         l2_fill pf is_bid rest
                           (sd_setitem (if is_bid then - p else p) (p, q) side))
               else l2_fill pf is_bid rest side))"

text \<open>
  \<open>OrderBook.update\<close> of orderbook.py. Its handler logs the exception and raises it
  again, so the result is the book as the exception left it, and the exception.
  \<open>now\<close> is the reading of \<open>time.time()\<close>.
\<close>

definition l2_update ::
  "(string \<Rightarrow> pyfloat option) \<Rightarrow> real \<Rightarrow> l2_book \<Rightarrow> (string \<rightharpoonup> pyval)
     \<Rightarrow> l2_book \<times> pyerr option" where
  "l2_update pf now b data =
     (let b1 = b\<lparr> l2_timestamp := dict_get data ''timestamp'' PyNone,
                  l2_exchange := dict_get data ''exchange'' PyNone,
                  l2_symbol := dict_get data ''symbol'' PyNone,
                  l2_bids := [] \<rparr>
      in case py_iter (dict_get data ''bids'' (PyList [])) of
           Inl e \<Rightarrow> (b1, Some e)
         | Inr bid_levels \<Rightarrow>
             (case l2_fill pf True bid_levels [] of
                (bids, Some e) \<Rightarrow> (b1\<lparr>l2_bids := bids\<rparr>, Some e)
              | (bids, None) \<Rightarrow>
                  (let b2 = b1\<lparr>l2_bids := bids, l2_asks := []\<rparr>
                   in case py_iter (dict_get data ''asks'' (PyList [])) of
                        Inl e \<Rightarrow> (b2, Some e)
                      | Inr ask_levels \<Rightarrow>
                          (case l2_fill pf False ask_levels [] of
                             (asks, Some e) \<Rightarrow> (b2\<lparr>l2_asks := asks\<rparr>, Some e)
                           | (asks, None) \<Rightarrow>
                               (b2\<lparr>l2_asks := asks, l2_last_update_time := Some now\<rparr>,
                                None)))))"

definition get_best_bid :: "l2_book \<Rightarrow> real option" where
  "get_best_bid b = (if l2_bids b = [] then None else Some (- fst (hd (l2_bids b))))"

definition get_best_ask :: "l2_book \<Rightarrow> real option" where
  "get_best_ask b = (if l2_asks b = [] then None else Some (fst (hd (l2_asks b))))"

definition get_mid_price :: "l2_book \<Rightarrow> real option" where
  "get_mid_price b =
     (case (get_best_bid b, get_best_ask b) of
        (Some best_bid, Some best_ask) \<Rightarrow> Some ((best_bid + best_ask) / 2)
      | _ \<Rightarrow> None)"

text \<open>A parser for plain decimal numerals (an optional sign, digits, an optional
  fraction) and the token \<open>nan\<close>, used to evaluate the functions on concrete
  snapshots.\<close>

definition digit_val :: "char \<Rightarrow> nat option" where
  "digit_val c =
     (let n = (of_char c :: nat) in if 48 \<le> n \<and> n \<le> 57 then Some (n - 48) else None)"

fun digits_val :: "string \<Rightarrow> nat \<Rightarrow> nat option" where
  "digits_val [] acc = Some acc"
| "digits_val (c # cs) acc =
     (case digit_val c of None \<Rightarrow> None | Some d \<Rightarrow> digits_val cs (10 * acc + d))"

definition unsigned_decimal :: "string \<Rightarrow> real option" where
  "unsigned_decimal s =
     (let ip = takeWhile (\<lambda>c. c \<noteq> CHR ''.'') s;
          fp = drop (Suc (length ip)) s
      in if ip = [] \<and> fp = [] then None
         else (case (digits_val ip 0, digits_val fp 0) of
                 (Some i, Some f) \<Rightarrow> Some (real i + real f / 10 ^ length fp)
               | _ \<Rightarrow> None))"

definition decimal_float :: "string \<Rightarrow> pyfloat option" where
  "decimal_float s =
     (if s = ''nan'' then Some NaN
      else (case s of
              [] \<Rightarrow> None
            | c # cs \<Rightarrow>
                if c = CHR ''-'' then map_option (\<lambda>r. Fl (- r)) (unsigned_decimal cs)
                else if c = CHR ''+'' then map_option Fl (unsigned_decimal cs)
                else map_option Fl (unsigned_decimal s)))"

section \<open>Well-formed levels and book invariants\<close>

text \<open>What \<open>float\<close> makes of the first two entries of a level: nothing when the level
  has fewer than two entries or a conversion raises.\<close>

definition level_parse ::
  "(string \<Rightarrow> pyfloat option) \<Rightarrow> pyval list \<Rightarrow> (pyfloat \<times> pyfloat) option" where
  "level_parse pf toks =
     (case toks of
        a # b # rest \<Rightarrow>
          (case (py_float pf a, py_float pf b) of
             (Inr x, Inr y) \<Rightarrow> Some (x, y)
           | _ \<Rightarrow> None)
      | _ \<Rightarrow> None)"

text \<open>The price and quantity a level contributes to a side of the book of
  order\_book.py: nothing when it does not parse or when the quantity is \<open><= 0\<close>.\<close>

definition level_value ::
  "(string \<Rightarrow> pyfloat option) \<Rightarrow> pyval list \<Rightarrow> (real \<times> pyfloat) option" where
  "level_value pf toks =
     (case level_parse pf toks of
        Some (Fl p, q) \<Rightarrow> if q \<le> Fl 0 then None else Some (p, q)
      | _ \<Rightarrow> None)"

text \<open>A level that would be stored under the key NaN.\<close>

definition nan_priced :: "(string \<Rightarrow> pyfloat option) \<Rightarrow> pyval list \<Rightarrow> bool" where
  "nan_priced pf toks =
     (case level_parse pf toks of
        Some (NaN, q) \<Rightarrow> \<not> q \<le> Fl 0
      | _ \<Rightarrow> False)"

text \<open>A level for which \<open>_update_side\<close> logs a warning: it has two entries or more,
  and a conversion of one of the first two raises.\<close>

definition logged :: "(string \<Rightarrow> pyfloat option) \<Rightarrow> pyval list \<Rightarrow> bool" where
  "logged pf toks = (2 \<le> length toks \<and> level_parse pf toks = None)"

definition accepted ::
  "(string \<Rightarrow> pyfloat option) \<Rightarrow> pyval list list \<Rightarrow> (real \<times> pyfloat) list" where
  "accepted pf levels = List.map_filter (level_value pf) levels"

text \<open>Storing a list of (price, quantity) items one after the other.\<close>

definition store_all :: "(real \<times> 'v) list \<Rightarrow> (real \<times> 'v) list \<Rightarrow> (real \<times> 'v) list" where
  "store_all items side = foldl (\<lambda>s (x, y). sd_setitem x y s) side items"

definition side_of :: "bool \<Rightarrow> order_book \<Rightarrow> (real \<times> pyfloat) list" where
  "side_of is_bid b = (if is_bid then ob_bids b else ob_asks b)"

text \<open>A level pair \<open>[price, quantity]\<close> as orderbook.py expects it, and a snapshot
  message with the given bid and ask pairs.\<close>

definition mk_level :: "pyval \<times> pyval \<Rightarrow> pyval" where
  "mk_level pq = PyList [fst pq, snd pq]"

definition snapshot :: "(pyval \<times> pyval) list \<Rightarrow> (pyval \<times> pyval) list \<Rightarrow> (string \<rightharpoonup> pyval)" where
  "snapshot bid_pairs ask_pairs =
     map_of [(''bids'', PyList (map mk_level bid_pairs)),
             (''asks'', PyList (map mk_level ask_pairs))]"

text \<open>A pair parses when \<open>float\<close> accepts both of its tokens.\<close>

definition parses :: "(string \<Rightarrow> pyfloat option) \<Rightarrow> pyval \<times> pyval \<Rightarrow> bool" where
  "parses pf pq = (level_parse pf [fst pq, snd pq] \<noteq> None)"

text \<open>A pair that orderbook.py would store under the key NaN.\<close>

definition l2_nan_priced :: "(string \<Rightarrow> pyfloat option) \<Rightarrow> pyval \<times> pyval \<Rightarrow> bool" where
  "l2_nan_priced pf pq =
     (case level_parse pf [fst pq, snd pq] of
        Some (NaN, q) \<Rightarrow> Fl 0 < q
      | _ \<Rightarrow> False)"

text \<open>The prices of a side of the L2 book, in iteration order.\<close>

definition l2_prices :: "(real \<times> (real \<times> real)) list \<Rightarrow> real list" where
  "l2_prices side = map (\<lambda>(k, (p, q)). p) side"

definition l2_quantities :: "(real \<times> (real \<times> real)) list \<Rightarrow> real list" where
  "l2_quantities side = map (\<lambda>(k, (p, q)). q) side"

text \<open>A run of updates on a book; an update that raises leaves the book as the
  exception left it, and the run goes on with the next update.\<close>

definition ob_run ::
  "(string \<Rightarrow> pyfloat option) \<Rightarrow> order_book \<Rightarrow> (real \<times> (string \<rightharpoonup> pyval)) list \<Rightarrow> order_book"
  where
  "ob_run pf b updates = foldl (\<lambda>b (now, data). fst (ob_update pf now b data)) b updates"

definition l2_run ::
  "(string \<Rightarrow> pyfloat option) \<Rightarrow> l2_book \<Rightarrow> (real \<times> (string \<rightharpoonup> pyval)) list \<Rightarrow> l2_book" where
  "l2_run pf b updates = foldl (\<lambda>b (now, data). fst (l2_update pf now b data)) b updates"

text \<open>No update of the run stores the key NaN.\<close>

fun ob_nan_key_free ::
  "(string \<Rightarrow> pyfloat option) \<Rightarrow> order_book \<Rightarrow> (real \<times> (string \<rightharpoonup> pyval)) list \<Rightarrow> bool" where
  "ob_nan_key_free pf b [] = True"
| "ob_nan_key_free pf b ((now, data) # updates) =
     (snd (ob_update pf now b data) \<noteq> Inl NaNKey
      \<and> ob_nan_key_free pf (fst (ob_update pf now b data)) updates)"

fun l2_nan_key_free ::
  "(string \<Rightarrow> pyfloat option) \<Rightarrow> l2_book \<Rightarrow> (real \<times> (string \<rightharpoonup> pyval)) list \<Rightarrow> bool" where
  "l2_nan_key_free pf b [] = True"
| "l2_nan_key_free pf b ((now, data) # updates) =
     (snd (l2_update pf now b data) \<noteq> Some NaNKey
      \<and> l2_nan_key_free pf (fst (l2_update pf now b data)) updates)"

text \<open>The invariant of the book of order\_book.py: both sides in strictly ascending key
  order, no stored quantity \<open><= 0\<close>.\<close>

definition ob_inv :: "order_book \<Rightarrow> bool" where
  "ob_inv b =
     (sorted_wrt (<) (map fst (ob_asks b)) \<and> sorted_wrt (<) (map fst (ob_bids b))
      \<and> (\<forall>(p, q) \<in> set (ob_asks b). \<not> q \<le> Fl 0) \<and> (\<forall>(p, q) \<in> set (ob_bids b). \<not> q \<le> Fl 0))"

text \<open>The invariant of a side of the L2 book: strictly ascending keys, the key of a
  bid is its negated price and the key of an ask its price, every quantity positive.\<close>

definition l2_side_inv :: "bool \<Rightarrow> (real \<times> (real \<times> real)) list \<Rightarrow> bool" where
  "l2_side_inv is_bid side =
     (sorted_wrt (<) (map fst side)
      \<and> (\<forall>(k, (p, q)) \<in> set side. k = (if is_bid then - p else p) \<and> 0 < q))"

definition l2_inv :: "l2_book \<Rightarrow> bool" where
  "l2_inv b = (l2_side_inv True (l2_bids b) \<and> l2_side_inv False (l2_asks b))"

section \<open>Walking the book\<close>

subsection \<open>calculate\_market\_order\_cost (data/orderbook.py)\<close>

text \<open>
  The loop over one side, best level first, with the running \<open>remaining_quantity_usd\<close>,
  \<open>total_cost\<close> and \<open>total_quantity\<close>. \<open>fill_quantity_usd / price\<close> raises on a level
  whose price is 0.
\<close>

fun walk_levels ::
  "(real \<times> real) list \<Rightarrow> real \<Rightarrow> real \<Rightarrow> real \<Rightarrow> pyerr + (real \<times> real \<times> real)" where
  "walk_levels [] remaining total_cost total_quantity =
     Inr (remaining, total_cost, total_quantity)"
| "walk_levels ((price, qty) # rest) remaining total_cost total_quantity =
     (let level_quantity_usd = price * qty;
          fill_quantity_usd = min remaining level_quantity_usd
      in if price = 0 then Inl ZeroDivisionError
         else (let fill_quantity_asset = fill_quantity_usd / price;
                   total_cost' = total_cost + fill_quantity_asset * price;
                   total_quantity' = total_quantity + fill_quantity_asset;
                   remaining' = remaining - fill_quantity_usd
               in if remaining' \<le> 0 then Inr (remaining', total_cost', total_quantity')
                  else walk_levels rest remaining' total_cost' total_quantity'))"

text \<open>The returned triple, and whether the warning ``Order not completely filled''
  was logged.\<close>

record market_order_cost =
  mo_total_cost :: real
  mo_average_price :: real
  mo_slippage_percentage :: real
  mo_not_filled_warning :: bool

definition calculate_market_order_cost ::
  "l2_book \<Rightarrow> real \<Rightarrow> bool \<Rightarrow> pyerr + market_order_cost" where
  "calculate_market_order_cost b quantity_usd is_buy =
     (if quantity_usd \<le> 0
      then Inr \<lparr> mo_total_cost = 0, mo_average_price = 0, mo_slippage_percentage = 0,
                 mo_not_filled_warning = False \<rparr>
      else case get_mid_price b of
             None \<Rightarrow> Inr \<lparr> mo_total_cost = 0, mo_average_price = 0,
                           mo_slippage_percentage = 0, mo_not_filled_warning = False \<rparr>
           | Some reference_price \<Rightarrow>
               ebind (walk_levels (map snd (if is_buy then l2_asks b else l2_bids b))
                        quantity_usd 0 0)
                 (\<lambda>(remaining_quantity_usd, total_cost, total_quantity).
                    (let average_price =
                           (if total_quantity > 0 then total_cost / total_quantity else 0)
                     in if reference_price = 0 then Inl ZeroDivisionError
                        else Inr \<lparr> mo_total_cost = total_cost,
                                   mo_average_price = average_price,
                                   mo_slippage_percentage =
                                     (if is_buy then (average_price / reference_price - 1) * 100
                                      else (1 - average_price / reference_price) * 100),
                                   mo_not_filled_warning = (remaining_quantity_usd > 0) \<rparr>)))"

subsection \<open>Greedy filling, as the specification words it\<close>

text \<open>
  Filling an amount \<open>r\<close> from a list of capacities, best first: each level gives what
  is still unfilled, up to its capacity.
\<close>

fun greedy :: "real \<Rightarrow> real list \<Rightarrow> real list" where
  "greedy r [] = []"
| "greedy r (c # cs) = min (max r 0) c # greedy (r - c) cs"

text \<open>The USD notional and the base-asset quantity a greedy walk over the levels
  (price, quantity) fills for a requested USD notional \<open>r\<close>.\<close>

fun filled_usd :: "real \<Rightarrow> (real \<times> real) list \<Rightarrow> real" where
  "filled_usd r [] = 0"
| "filled_usd r ((p, q) # levels) = min (max r 0) (p * q) + filled_usd (r - p * q) levels"

fun filled_asset :: "real \<Rightarrow> (real \<times> real) list \<Rightarrow> real" where
  "filled_asset r [] = 0"
| "filled_asset r ((p, q) # levels) =
     min (max r 0) (p * q) / p + filled_asset (r - p * q) levels"

text \<open>The levels of a side of the L2 book, as (price, quantity) in iteration order.\<close>

definition l2_levels :: "(real \<times> (real \<times> real)) list \<Rightarrow> (real \<times> real) list" where
  "l2_levels side = map snd side"

text \<open>Every stored price of the L2 book is positive.\<close>

definition l2_positive :: "l2_book \<Rightarrow> bool" where
  "l2_positive b =
     ((\<forall>p \<in> set (l2_prices (l2_bids b)). 0 < p) \<and> (\<forall>p \<in> set (l2_prices (l2_asks b)). 0 < p))"

subsection \<open>\_estimate\_price\_impact (data/order\_book.py)\<close>

text \<open>\<open>min(a, qty)\<close> for a number \<open>a\<close>: \<open>a\<close> is kept unless \<open>qty\<close> is smaller, so the
  result is a number also when the stored quantity is NaN.\<close>

definition min_num :: "real \<Rightarrow> pyfloat \<Rightarrow> real" where
  "min_num a qty = (case py_min (Fl a) qty of Fl r \<Rightarrow> r | NaN \<Rightarrow> a)"

text \<open>The loop over the items, with the running \<open>remaining_size\<close> and \<open>total_cost\<close>.\<close>

fun take_levels :: "(real \<times> pyfloat) list \<Rightarrow> real \<Rightarrow> real \<Rightarrow> real \<times> real" where
  "take_levels [] remaining_size total_cost = (remaining_size, total_cost)"
| "take_levels ((price, qty) # rest) remaining_size total_cost =
     (if remaining_size \<le> 0 then (remaining_size, total_cost)
      else (let taken = min_num remaining_size qty
            in take_levels rest (remaining_size - taken) (total_cost + taken * price)))"

text \<open>
  \<open>_estimate_price_impact\<close> for a size that is a number. A mid price that is \<open>None\<close>
  or 0 is falsy; the division by a size of 0 raises, and the handler of the \<open>try\<close>
  block returns 0.
\<close>

definition estimate_price_impact :: "order_book \<Rightarrow> real \<Rightarrow> bool \<Rightarrow> real" where
  "estimate_price_impact b order_size is_buy =
     (if \<not> ob_is_initialized b \<or> ob_bids b = [] \<or> ob_asks b = [] then 0
      else (let book_side = (if is_buy then ob_asks b else ob_bids b);
                mid_price =
                  (case ob_mid_price b of
                     None \<Rightarrow> (fst (last (ob_bids b)) + fst (hd (ob_asks b))) / 2
                   | Some m \<Rightarrow>
                       if m = 0 then (fst (last (ob_bids b)) + fst (hd (ob_asks b))) / 2 else m)
            in if mid_price = 0 then 0
               else (let items = (if is_buy then book_side else rev book_side);
                         (remaining_size, total_cost) = take_levels items order_size 0;
                         total_cost' =
                           (if remaining_size > 0
                            then total_cost + remaining_size * fst (last items)
                            else total_cost)
                     in if order_size = 0 then 0
                        else \<bar>total_cost' / order_size - mid_price\<bar> / mid_price)))"

text \<open>The notional of each level of a list of levels (price, quantity), and the
  result \<open>calculate_market_order_cost\<close> returns without walking the book.\<close>

definition notionals :: "(real \<times> real) list \<Rightarrow> real list" where
  "notionals levels = map (\<lambda>(p, q). p * q) levels"

definition no_cost :: market_order_cost where
  "no_cost = \<lparr> mo_total_cost = 0, mo_average_price = 0, mo_slippage_percentage = 0,
               mo_not_filled_warning = False \<rparr>"

text \<open>The items of a side of the book of order\_book.py whose quantities are the
  numbers of \<open>items\<close>.\<close>

definition num_items :: "(real \<times> real) list \<Rightarrow> (real \<times> pyfloat) list" where
  "num_items items = map (\<lambda>(p, q). (p, Fl q)) items"

section \<open>The reconnect loop (websocket/connector.py)\<close>

text \<open>
  The fields of \<open>WebSocketConnector\<close> that \<open>_maintain_connection\<close> reads and writes;
  \<open>websocket_set\<close> tells whether \<open>self.websocket\<close> is not \<open>None\<close>.
\<close>

record connector =
  should_run :: bool
  reconnect_attempts :: int
  max_reconnect_attempts :: int
  reconnect_interval :: int
  websocket_set :: bool

text \<open>The fields after \<open>__init__\<close> and the assignments of \<open>connect\<close>, when the task of
  \<open>_maintain_connection\<close> starts.\<close>

definition WebSocketConnector_connect :: connector where
  "WebSocketConnector_connect =
     \<lparr> should_run = True, reconnect_attempts = 0, max_reconnect_attempts = 5,
       reconnect_interval = 5, websocket_set = False \<rparr>"

text \<open>
  The loop runs against the network and the caller, which are its input. One iteration
  of \<open>while self.should_run\<close> meets one of three courses: \<open>websockets.connect\<close>
  raises; the connection is made and an exception is raised later (by the message
  stream or by the resubscription); the connection is made and the message stream
  ends without an exception. Both handlers of the loop have the same body, so the
  class of the exception plays no part. \<open>disconnect\<close> clears \<open>should_run\<close>:
  \<open>it_stop_before\<close> tells that it has done so before the handler tests the flag (or,
  when the stream ended, before the next test of the loop), \<open>it_stop_sleeping\<close> that
  it does so during the sleep.
\<close>

datatype attempt = ConnectRaises | ConnectedThenRaises | ConnectedThenEnds

record iteration =
  it_attempt :: attempt
  it_stop_before :: bool
  it_stop_sleeping :: bool

text \<open>What the loop does that can be observed: it calls \<open>websockets.connect\<close>, it
  sleeps \<open>wait_time\<close> seconds, it gives up (``Max reconnect attempts reached'').\<close>

datatype event = Connecting | Sleep int | GiveUp

text \<open>The events of a step followed by the rest of the run.\<close>

definition emit ::
  "event list \<Rightarrow> connector \<times> event list \<times> bool \<Rightarrow> connector \<times> event list \<times> bool" where
  "emit es r = (fst r, es @ fst (snd r), snd (snd r))"

text \<open>
  \<open>_maintain_connection\<close> on the iterations the environment provides: the connector
  after them, the events, and whether the loop has been left. The loop may go on for
  ever; on a finite list of iterations the result says whether it is still running.
\<close>

fun maintain_connection ::
  "connector \<Rightarrow> iteration list \<Rightarrow> connector \<times> event list \<times> bool" where
  "maintain_connection c [] = (c, [], \<not> should_run c)"
| "maintain_connection c (it # rest) =
     (if \<not> should_run c then (c, [], True)
      else (let c1 = (case it_attempt it of
                        ConnectRaises \<Rightarrow> c
                      | _ \<Rightarrow> c\<lparr>websocket_set := True, reconnect_attempts := 0\<rparr>);
                c2 = c1\<lparr>should_run := \<not> it_stop_before it\<rparr>
            in if it_attempt it = ConnectedThenEnds
               then emit [Connecting] (maintain_connection c2 rest)
               else (let c3 = c2\<lparr>websocket_set := False\<rparr>
                     in if should_run c3
                        then (let c4 = c3\<lparr>reconnect_attempts := reconnect_attempts c3 + 1\<rparr>
                              in if reconnect_attempts c4 > max_reconnect_attempts c4
                                 then (c4, [Connecting, GiveUp], True)
                                 else (let wait_time =
                                             reconnect_interval c4
                                               * min (reconnect_attempts c4) 5;
                                           c5 = c4\<lparr>should_run := \<not> it_stop_sleeping it\<rparr>
                                       in emit [Connecting, Sleep wait_time]
                                            (maintain_connection c5 rest)))
                        else (c3, [Connecting], True))))"

text \<open>The wait before the retry that follows the \<open>k\<close>-th failure in a row.\<close>

definition wait_time_of :: "connector \<Rightarrow> int \<Rightarrow> int" where
  "wait_time_of c k = reconnect_interval c * min k 5"

text \<open>An iteration in which the connection fails and nobody disconnects.\<close>

definition failure :: iteration where
  "failure = \<lparr> it_attempt = ConnectRaises, it_stop_before = False, it_stop_sleeping = False \<rparr>"

section \<open>Floats\<close>

lemma pyfloat_plus [simp]:
  "Fl x + Fl y = Fl (x + y)" "NaN + a = NaN" "a + NaN = NaN"
  by (simp_all add: plus_pyfloat_def split: pyfloat.splits)

lemma pyfloat_minus [simp]:
  "Fl x - Fl y = Fl (x - y)" "NaN - a = NaN" "a - NaN = NaN"
  by (simp_all add: minus_pyfloat_def split: pyfloat.splits)

lemma pyfloat_times [simp]:
  "Fl x * Fl y = Fl (x * y)" "NaN * a = NaN" "a * NaN = NaN"
  by (simp_all add: times_pyfloat_def split: pyfloat.splits)

lemma pyfloat_divide [simp]:
  "Fl x / Fl y = Fl (x / y)" "NaN / a = NaN" "a / NaN = NaN"
  by (simp_all add: divide_pyfloat_def split: pyfloat.splits)

lemma pyfloat_uminus [simp]: "- Fl x = Fl (- x)" "- NaN = NaN"
  by (simp_all add: uminus_pyfloat_def)

lemma pyfloat_le [simp]:
  "(Fl x \<le> Fl y) = (x \<le> y)" "(NaN \<le> a) = False" "(a \<le> NaN) = False"
  by (simp_all add: less_eq_pyfloat_def split: pyfloat.splits)

lemma pyfloat_less [simp]:
  "(Fl x < Fl y) = (x < y)" "(NaN < a) = False" "(a < NaN) = False"
  by (simp_all add: less_pyfloat_def split: pyfloat.splits)

lemma fexp_simps [simp]: "fexp (Fl x) = Fl (exp x)" "fexp NaN = NaN"
  by (simp_all add: fexp_def)

lemma py_max_simps [simp]:
  "py_max (Fl x) (Fl y) = Fl (max x y)" "py_max NaN a = NaN" "py_max (Fl x) NaN = Fl x"
  by (simp_all add: py_max_def max_def)

lemma py_min_simps [simp]:
  "py_min (Fl x) (Fl y) = Fl (min x y)" "py_min NaN a = NaN" "py_min (Fl x) NaN = Fl x"
  by (auto simp: py_min_def min_def)

lemma of_float_simps [simp]: "of_float (Fl x) = PyNum x" "of_float NaN = PyNaN"
  by (simp_all add: of_float_def)

lemma max_zero_simps [simp]: "max_zero (Fl x) = max 0 x" "max_zero NaN = 0"
  by (simp_all add: max_zero_def)

lemma max_zero_nonneg: "0 \<le> max_zero x"
  by (cases x) simp_all

lemma as_num_NaN: "(as_num v = Inr NaN) = (v = PyNaN)"
  by (cases v) simp_all

section \<open>Properties of the cost models\<close>

subsection \<open>Maker/taker split of market orders\<close>

lemma str_lower_market: "str_lower ''market'' = ''market''"
  by (simp add: str_lower_def char_lower_def)

lemma py_max_floor: "py_max p (Fl (9/10)) = NaN \<or> Fl (9/10) \<le> py_max p (Fl (9/10))"
  by (cases p) simp_all

lemma predict_proportion_try_market:
  assumes "str_lower order_type = ''market''"
    and "predict_proportion_try m f q order_type v = Inr r"
  shows "\<exists>p. taker r = py_max p (Fl (9/10))
           \<and> (f ''spread_percentage'' \<noteq> Some PyNaN \<and> q \<noteq> NaN \<and> v \<noteq> NaN
                \<and> (\<forall>fs. mt_predict_proba m fs \<noteq> Inr NaN) \<longrightarrow> p \<noteq> NaN)"
proof -
  let ?sp = "dict_get f ''spread_percentage'' (PyNum (1/100))"
  obtain bd ad where bd: "as_num (dict_get f ''bid_depth_5pct'' (PyNum 1)) = Inr bd"
    and ad: "as_num (dict_get f ''ask_depth_5pct'' (PyNum 1)) = Inr ad"
    using assms(2)
    by (auto simp: predict_proportion_try_def ebind_def Let_def split: sum.splits)
  define ratio where
    "ratio = py_min (if Fl 0 < (bd + ad) / Fl 2 then q / ((bd + ad) / Fl 2) else Fl 1) (Fl 1)"
  have ratio: "q \<noteq> NaN \<Longrightarrow> ratio \<noteq> NaN"
    unfolding ratio_def by (cases q; cases bd; cases ad) auto
  show ?thesis
  proof (cases "mt_is_fitted m")
    case True
    then obtain p where p: "mt_predict_proba m [PyNum 1, ?sp, of_float ratio, of_float v] = Inr p"
      and t: "taker r = py_max p (Fl (9/10))"
      using assms bd ad
      by (auto simp: predict_proportion_try_def ebind_def Let_def ratio_def split: sum.splits)
    then show ?thesis by metis
  next
    case False
    then obtain sp where sp: "as_num ?sp = Inr sp"
      and t: "taker r = py_max (Fl 1 / (Fl 1 + fexp (- (Fl (mt_intercept m)
                              + Fl (mt_coef_order_type_market m) * Fl 1
                              + Fl (mt_coef_spread_percentage m) * sp
                              + Fl (mt_coef_order_size_to_depth_ratio m) * ratio
                              + Fl (mt_coef_volatility m) * v)))) (Fl (9/10))"
      using assms bd ad
      by (auto simp: predict_proportion_try_def ebind_def Let_def ratio_def split: sum.splits)
    have "sp \<noteq> NaN" if "f ''spread_percentage'' \<noteq> Some PyNaN"
      using that sp as_num_NaN [of ?sp] by (auto simp: dict_get_def split: option.splits)
    then have "f ''spread_percentage'' \<noteq> Some PyNaN \<and> q \<noteq> NaN \<and> v \<noteq> NaN \<longrightarrow>
      Fl 1 / (Fl 1 + fexp (- (Fl (mt_intercept m)
                              + Fl (mt_coef_order_type_market m) * Fl 1
                              + Fl (mt_coef_spread_percentage m) * sp
                              + Fl (mt_coef_order_size_to_depth_ratio m) * ratio
                              + Fl (mt_coef_volatility m) * v))) \<noteq> NaN"
      using ratio by (cases sp; cases ratio; cases v) auto
    with t show ?thesis by blast
  qed
qed

text \<open>
  Claim C6 fails on a NaN. With the default coefficients and a feature map whose
  \<open>spread_percentage\<close> is NaN, \<open>z\<close> is NaN, the logistic function of it is NaN, and
  \<open>max(taker_probability, 0.9)\<close> keeps its first argument: nothing raises, the handler
  is not reached, and the taker proportion returned for a market order is NaN, which
  is not at least 0.9.
\<close>

theorem nan_spread_taker_counterexample:
  "predict_proportion_try MakerTakerModel_init (map_of [(''spread_percentage'', PyNaN)])
     (Fl 100) ''market'' (Fl (2/100))
     = Inr \<lparr> maker = NaN, taker = NaN,
             mt_features_used = Some (1, PyNaN, Fl 1, Fl (2/100)), mt_error = None \<rparr>
   \<and> taker (predict_proportion MakerTakerModel_init (map_of [(''spread_percentage'', PyNaN)])
              (Fl 100) ''market'' (Fl (2/100))) = NaN
   \<and> \<not> Fl (9/10) \<le> taker (predict_proportion MakerTakerModel_init
                             (map_of [(''spread_percentage'', PyNaN)])
                             (Fl 100) ''market'' (Fl (2/100)))"
  by (simp add: predict_proportion_def predict_proportion_try_def MakerTakerModel_init_def
                dict_get_def ebind_def Let_def str_lower_market)

text \<open>
  Claim C6, for the inputs that are numbers. When the order type is \<open>market\<close> (in any
  letter case), the taker proportion returned by \<open>predict_proportion\<close> is NaN or at
  least 0.9; when the \<open>try\<close> block raises, the handler returns taker = 1; and when the
  spread feature, the quantity and the volatility are not NaN and the fitted regression
  does not predict NaN, the taker proportion is at least 0.9, whatever the feature map,
  the coefficients and the prediction are.
\<close>

theorem market_taker_floor:
  assumes "str_lower order_type = ''market''"
  shows "(taker (predict_proportion m order_book_features quantity_usd order_type volatility)
            = NaN
          \<or> Fl (9/10)
              \<le> taker (predict_proportion m order_book_features quantity_usd order_type
                         volatility))
       \<and> (\<forall>e. predict_proportion_try m order_book_features quantity_usd order_type volatility
                 = Inl e
            \<longrightarrow> taker (predict_proportion m order_book_features quantity_usd order_type
                          volatility) = Fl 1)
       \<and> (order_book_features ''spread_percentage'' \<noteq> Some PyNaN \<and> quantity_usd \<noteq> NaN
            \<and> volatility \<noteq> NaN \<and> (\<forall>fs. mt_predict_proba m fs \<noteq> Inr NaN)
            \<longrightarrow> Fl (9/10)
                  \<le> taker (predict_proportion m order_book_features quantity_usd order_type
                             volatility))"
proof (cases "predict_proportion_try m order_book_features quantity_usd order_type volatility")
  case (Inl e)
  with assms show ?thesis by (simp add: predict_proportion_def)
next
  case (Inr r)
  from predict_proportion_try_market [OF assms Inr]
  obtain p where t: "taker r = py_max p (Fl (9/10))"
    and n: "order_book_features ''spread_percentage'' \<noteq> Some PyNaN \<and> quantity_usd \<noteq> NaN
            \<and> volatility \<noteq> NaN \<and> (\<forall>fs. mt_predict_proba m fs \<noteq> Inr NaN) \<longrightarrow> p \<noteq> NaN"
    by blast
  have r: "predict_proportion m order_book_features quantity_usd order_type volatility = r"
    using Inr by (simp add: predict_proportion_def)
  have a: "taker r = NaN \<or> Fl (9/10) \<le> taker r"
    unfolding t by (rule py_max_floor)
  have b: "p \<noteq> NaN \<Longrightarrow> Fl (9/10) \<le> taker r"
    unfolding t by (cases p) simp_all
  show ?thesis unfolding r using a b n Inr by auto
qed

theorem market_taker_floor_witness:
  "str_lower ''market'' = ''market''
   \<and> map_of [(''spread_percentage'', PyNum 3)] ''spread_percentage'' \<noteq> Some PyNaN
   \<and> Fl 100 \<noteq> NaN \<and> Fl (2/100) \<noteq> NaN
   \<and> (\<forall>fs. mt_predict_proba MakerTakerModel_init fs \<noteq> Inr NaN)
   \<and> Fl (9/10) \<le> taker (predict_proportion MakerTakerModel_init
              (map_of [(''spread_percentage'', PyNum 3)]) (Fl 100) ''market'' (Fl (2/100)))
   \<and> predict_proportion_try MakerTakerModel_init
        (map_of [(''spread_percentage'', PyNone)]) (Fl 100) ''market'' (Fl (2/100))
       = Inl TypeError
   \<and> taker (predict_proportion MakerTakerModel_init
              (map_of [(''spread_percentage'', PyNone)]) (Fl 100) ''market'' (Fl (2/100)))
       = Fl 1"
proof -
  have h: "str_lower ''market'' = ''market''"
    by (simp add: str_lower_def char_lower_def)
  have n: "map_of [(''spread_percentage'', PyNum 3)] ''spread_percentage'' \<noteq> Some PyNaN"
       "Fl 100 \<noteq> NaN" "Fl (2/100) \<noteq> NaN"
       "\<forall>fs. mt_predict_proba MakerTakerModel_init fs \<noteq> Inr NaN"
    by (simp_all add: MakerTakerModel_init_def)
  have e: "predict_proportion_try MakerTakerModel_init
             (map_of [(''spread_percentage'', PyNone)]) (Fl 100) ''market'' (Fl (2/100))
           = Inl TypeError"
    by (simp add: predict_proportion_try_def MakerTakerModel_init_def dict_get_def ebind_def
                  Let_def)
  note t1 = market_taker_floor [OF h, of MakerTakerModel_init
         "map_of [(''spread_percentage'', PyNum 3)]" "Fl 100" "Fl (2/100)"]
  note t2 = market_taker_floor [OF h, of MakerTakerModel_init
         "map_of [(''spread_percentage'', PyNone)]" "Fl 100" "Fl (2/100)"]
  have a: "Fl (9/10) \<le> taker (predict_proportion MakerTakerModel_init
              (map_of [(''spread_percentage'', PyNum 3)]) (Fl 100) ''market'' (Fl (2/100)))"
    using t1 [THEN conjunct2, THEN conjunct2] n by blast
  have b: "taker (predict_proportion MakerTakerModel_init
              (map_of [(''spread_percentage'', PyNone)]) (Fl 100) ''market'' (Fl (2/100)))
       = Fl 1"
    using t2 [THEN conjunct2, THEN conjunct1] e by blast
  from h n a e b show ?thesis by (intro conjI)
qed

subsection \<open>Slippage is clamped at zero\<close>

lemma predict_slippage_try_shape:
  assumes "predict_slippage_try m f q is_buy v = Inr r"
  shows "slippage_percentage r \<ge> 0 \<and> slippage_usd r = q * slippage_percentage r / 100"
  using assms
  by (auto simp: predict_slippage_try_def ebind_def Let_def max_zero_nonneg
           split: sum.splits if_splits prod.splits)

lemma predict_slippage_shape:
  "slippage_percentage (predict_slippage m f q is_buy v) \<ge> 0
   \<and> slippage_usd (predict_slippage m f q is_buy v)
       = q * slippage_percentage (predict_slippage m f q is_buy v) / 100"
proof (cases "predict_slippage_try m f q is_buy v")
  case (Inl e)
  then show ?thesis by (simp add: predict_slippage_def)
next
  case (Inr r)
  with predict_slippage_try_shape [OF Inr] show ?thesis by (simp add: predict_slippage_def)
qed

text \<open>
  Claim C10. For every feature map, volatility, model and \<open>quantity_usd \<ge> 0\<close>,
  \<open>predict_slippage\<close> returns a slippage percentage that is at least 0, a slippage in
  USD equal to \<open>quantity_usd * slippage_percentage / 100\<close>, and hence a non-negative
  slippage in USD; this covers the regression path, the default coefficients and the
  error fallback, and a feature, a volatility or a prediction that is NaN, which
  \<open>max(0.0, slippage_percentage)\<close> turns into 0.
\<close>

theorem slippage_nonneg:
  assumes "quantity_usd \<ge> 0"
  shows "slippage_percentage (predict_slippage m f quantity_usd is_buy volatility) \<ge> 0
       \<and> slippage_usd (predict_slippage m f quantity_usd is_buy volatility)
           = quantity_usd
               * slippage_percentage (predict_slippage m f quantity_usd is_buy volatility) / 100
       \<and> slippage_usd (predict_slippage m f quantity_usd is_buy volatility) \<ge> 0"
proof -
  let ?r = "predict_slippage m f quantity_usd is_buy volatility"
  have a: "slippage_percentage ?r \<ge> 0"
    and b: "slippage_usd ?r = quantity_usd * slippage_percentage ?r / 100"
    using predict_slippage_shape [of m f quantity_usd is_buy volatility] by simp_all
  have "quantity_usd * slippage_percentage ?r \<ge> 0"
    using assms a by (rule mult_nonneg_nonneg)
  with a b show ?thesis by simp
qed

text \<open>The witness: a strongly favourable volume imbalance makes the linear combination
  negative (0.01 + 0.005 + 0.8 - 2 + 0.006), and the result is clamped to 0.\<close>

theorem slippage_nonneg_witness:
  "(0::real) \<le> 100
   \<and> slippage_percentage (predict_slippage SlippageModel_init
        (map_of [(''volume_imbalance'', PyNum 10)]) 100 True (Fl (2/100))) = 0
   \<and> slippage_usd (predict_slippage SlippageModel_init
        (map_of [(''volume_imbalance'', PyNum 10)]) 100 True (Fl (2/100))) = 0"
proof -
  have h: "(0::real) \<le> 100" by simp
  have v: "slippage_percentage (predict_slippage SlippageModel_init
        (map_of [(''volume_imbalance'', PyNum 10)]) 100 True (Fl (2/100))) = 0"
    by (simp add: predict_slippage_def predict_slippage_try_def SlippageModel_init_def
                  dict_get_def ebind_def Let_def)
  from slippage_nonneg [OF h, of SlippageModel_init
         "map_of [(''volume_imbalance'', PyNum 10)]" True "Fl (2/100)"] v h
  show ?thesis by simp
qed

subsection \<open>Fees\<close>

lemma exchange_tiers_OKX:
  "dict_item exchange_fee_tiers
     (if exchange_fee_tiers exchange = None then ''OKX'' else exchange) = Inr OKX_FEE_TIERS"
  by (simp add: exchange_fee_tiers_def dict_item_def)

lemma OKX_tier_1:
  "OKX_FEE_TIERS ''Tier 1'' = Some \<lparr> maker_rate = 8/10000, taker_rate = 10/10000 \<rparr>"
  by (simp add: OKX_FEE_TIERS_def)

lemma tier_item:
  "dict_item OKX_FEE_TIERS (if OKX_FEE_TIERS fee_tier = None then ''Tier 1'' else fee_tier)
     = Inr (resolved_rates fee_tier)"
  by (auto simp: dict_item_def resolved_rates_def OKX_tier_1)

lemma calculate_fees_unfold:
  "calculate_fees exchange fee_tier order_type q mtp =
     (let rates = resolved_rates fee_tier;
          (mp, tp) = (case mtp of
                       None \<Rightarrow> (if str_lower order_type = ''market'' then (0, 1) else (1/2, 1/2))
                     | Some d \<Rightarrow>
                         (let mp = dict_get d ''maker'' 0; tp = dict_get d ''taker'' 1
                          in if mp + tp > 0 then (mp / (mp + tp), tp / (mp + tp)) else (mp, tp)))
      in Inr \<lparr> maker_fee_usd = q * mp * maker_rate rates,
               taker_fee_usd = q * tp * taker_rate rates,
               total_fee_usd = q * mp * maker_rate rates + q * tp * taker_rate rates,
               maker_fee_rate = maker_rate rates,
               taker_fee_rate = taker_rate rates,
               maker_proportion = mp,
               taker_proportion = tp \<rparr>)"
  unfolding calculate_fees_def Let_def exchange_tiers_OKX ebind_def
  by (simp add: tier_item split: prod.splits)

text \<open>
  Claim C9, as stated, fails: an unrecognised exchange is replaced by OKX, and the fee
  tier asked for is then looked up in the OKX table, so with the unknown exchange
  \<open>Binance\<close> and the tier \<open>Tier 3\<close> the rates are those of OKX \<open>Tier 3\<close>
  (0.0004 and 0.0006), not those of \<open>Tier 1\<close> (0.0008 and 0.0010).
\<close>

theorem unknown_exchange_keeps_tier_counterexample:
  "exchange_fee_tiers ''Binance'' = None
   \<and> calculate_fees ''Binance'' ''Tier 3'' ''market'' 10000 None =
       Inr \<lparr> maker_fee_usd = 0, taker_fee_usd = 6, total_fee_usd = 6,
             maker_fee_rate = 4/10000, taker_fee_rate = 6/10000,
             maker_proportion = 0, taker_proportion = 1 \<rparr>"
  by (simp add: calculate_fees_def exchange_fee_tiers_def OKX_FEE_TIERS_def dict_item_def
                ebind_def Let_def str_lower_def char_lower_def)

text \<open>
  Claim C9, amended. \<open>calculate_fees\<close> never raises; the total fee is the sum of the
  maker and the taker fee, that is
  \<open>quantity_usd * (maker_proportion * maker_rate + taker_proportion * taker_rate)\<close>;
  when a proportion is given whose maker and taker entries sum to a positive value, the
  returned proportions sum to 1; the exchange is replaced by OKX when it is unknown, so
  that the rates are those of the requested tier in the OKX table, and those of OKX
  \<open>Tier 1\<close> when the tier is not in that table.
\<close>

theorem calculate_fees_total:
  "\<exists>r. calculate_fees exchange fee_tier order_type q mtp = Inr r
      \<and> total_fee_usd r = maker_fee_usd r + taker_fee_usd r
      \<and> total_fee_usd r
          = q * (maker_proportion r * maker_fee_rate r + taker_proportion r * taker_fee_rate r)
      \<and> (\<forall>d. mtp = Some d \<and> dict_get d ''maker'' 0 + dict_get d ''taker'' 1 > 0
            \<longrightarrow> maker_proportion r + taker_proportion r = 1)
      \<and> (OKX_FEE_TIERS fee_tier = None \<longrightarrow>
            maker_fee_rate r = 8/10000 \<and> taker_fee_rate r = 10/10000)
      \<and> (\<forall>rates. OKX_FEE_TIERS fee_tier = Some rates \<longrightarrow>
            maker_fee_rate r = maker_rate rates \<and> taker_fee_rate r = taker_rate rates)"
  unfolding calculate_fees_unfold Let_def
  by (auto simp: resolved_rates_def algebra_simps add_divide_distrib [symmetric]
           split: prod.splits option.splits if_splits)

theorem calculate_fees_total_witness:
  "dict_get (map_of [(''maker'', 3), (''taker'', 1 :: real)]) ''maker'' 0
     + dict_get (map_of [(''maker'', 3), (''taker'', 1 :: real)]) ''taker'' 1 > 0
   \<and> OKX_FEE_TIERS ''VIP 9'' = None
   \<and> OKX_FEE_TIERS ''Tier 2'' = Some \<lparr> maker_rate = 6/10000, taker_rate = 8/10000 \<rparr>
   \<and> (\<exists>r. calculate_fees ''Binance'' ''VIP 9'' ''limit'' 10000
             (Some (map_of [(''maker'', 3), (''taker'', 1)])) = Inr r
          \<and> maker_proportion r + taker_proportion r = 1
          \<and> maker_fee_rate r = 8/10000 \<and> taker_fee_rate r = 10/10000)
   \<and> (\<exists>r. calculate_fees ''Binance'' ''Tier 2'' ''limit'' 10000 None = Inr r
          \<and> maker_fee_rate r = 6/10000 \<and> taker_fee_rate r = 8/10000)"
proof -
  have a: "dict_get (map_of [(''maker'', 3), (''taker'', 1 :: real)]) ''maker'' 0
     + dict_get (map_of [(''maker'', 3), (''taker'', 1 :: real)]) ''taker'' 1 > 0"
    by (simp add: dict_get_def)
  have b: "OKX_FEE_TIERS ''VIP 9'' = None"
    by (simp add: OKX_FEE_TIERS_def)
  have c: "OKX_FEE_TIERS ''Tier 2'' = Some \<lparr> maker_rate = 6/10000, taker_rate = 8/10000 \<rparr>"
    by (simp add: OKX_FEE_TIERS_def)
  from calculate_fees_total [of "''Binance''" "''VIP 9''" "''limit''" 10000
         "Some (map_of [(''maker'', 3), (''taker'', 1)])"] a b
  have d: "\<exists>r. calculate_fees ''Binance'' ''VIP 9'' ''limit'' 10000
             (Some (map_of [(''maker'', 3), (''taker'', 1)])) = Inr r
          \<and> maker_proportion r + taker_proportion r = 1
          \<and> maker_fee_rate r = 8/10000 \<and> taker_fee_rate r = 10/10000"
    by blast
  from calculate_fees_total [of "''Binance''" "''Tier 2''" "''limit''" 10000 None] c
  have e: "\<exists>r. calculate_fees ''Binance'' ''Tier 2'' ''limit'' 10000 None = Inr r
          \<and> maker_fee_rate r = 6/10000 \<and> taker_fee_rate r = 8/10000"
    by fastforce
  from a b c d e show ?thesis by blast
qed

section \<open>Properties of the order books\<close>

subsection \<open>SortedDict and the level loop\<close>

lemma sd_setitem_set: "set (sd_setitem k v xs) \<subseteq> insert (k, v) (set xs)"
  by (induction xs) (auto split: if_splits)

lemma sd_setitem_keys: "fst ` set (sd_setitem k v xs) \<subseteq> insert k (fst ` set xs)"
  using sd_setitem_set [of k v xs] by force

lemma sd_setitem_sorted:
  "sorted_wrt (<) (map fst xs) \<Longrightarrow> sorted_wrt (<) (map fst (sd_setitem k v xs))"
proof (induction xs)
  case Nil
  then show ?case by simp
next
  case (Cons a xs)
  obtain k' v' where a: "a = (k', v')" by (cases a)
  show ?case
  proof (cases "k < k'")
    case True
    with Cons.prems a show ?thesis by auto
  next
    case False
    show ?thesis
    proof (cases "k = k'")
      case True
      with Cons.prems a show ?thesis by auto
    next
      case ne: False
      with False have gt: "k' < k" by simp
      have "\<forall>x \<in> fst ` set (sd_setitem k v xs). k' < x"
        using Cons.prems a gt sd_setitem_keys [of k v xs] by fastforce
      moreover have "sorted_wrt (<) (map fst (sd_setitem k v xs))"
        using Cons.IH Cons.prems by simp
      ultimately show ?thesis using a False ne by auto
    qed
  qed
qed

lemma map_of_sd_setitem: "map_of (sd_setitem k v xs) = (map_of xs)(k \<mapsto> v)"
  by (induction xs) (auto simp: fun_upd_twist)

lemma sd_setitem_pos:
  "\<forall>(p, q) \<in> set xs. P p q \<Longrightarrow> P k v \<Longrightarrow> \<forall>(p, q) \<in> set (sd_setitem k v xs). P p q"
  using sd_setitem_set [of k v xs] by auto

lemma length_sd_setitem: "length (sd_setitem k v xs) \<le> Suc (length xs)"
  by (induction xs) auto

lemma py_float_err: "py_float pf v = Inl e \<Longrightarrow> e = ValueError \<or> e = TypeError"
  by (cases v) (auto split: option.splits)

lemma update_levels_sorted:
  "sorted_wrt (<) (map fst side)
   \<Longrightarrow> sorted_wrt (<) (map fst (fst (update_levels pf ls side ws)))"
  by (induction ls arbitrary: side ws)
     (auto split: sum.splits prod.splits pyfloat.splits simp: sd_setitem_sorted)

lemma update_levels_pos:
  "\<forall>(p, q) \<in> set side. \<not> q \<le> Fl 0
   \<Longrightarrow> \<forall>(p, q) \<in> set (fst (update_levels pf ls side ws)). \<not> q \<le> Fl 0"
proof (induction ls arbitrary: side ws)
  case Nil
  then show ?case by simp
next
  case (Cons level ls)
  note IH = Cons.IH
  show ?case
  proof (cases "py_len level")
    case (Inl e)
    then show ?thesis using Cons.prems by simp
  next
    case len: (Inr n)
    show ?thesis
    proof (cases "n < 2")
      case True
      then show ?thesis using len IH [OF Cons.prems] by simp
    next
      case n2: False
      show ?thesis
      proof (cases "parse_level pf level")
        case (Inl e)
        then show ?thesis using len n2 IH [OF Cons.prems] Cons.prems by simp
      next
        case (Inr pq)
        obtain price quantity where pq: "pq = (price, quantity)" by (cases pq)
        show ?thesis
        proof (cases "quantity \<le> Fl 0")
          case True
          then show ?thesis using len n2 Inr pq IH [OF Cons.prems] by simp
        next
          case nq: False
          show ?thesis
          proof (cases price)
            case NaN
            then show ?thesis using len n2 Inr pq nq Cons.prems by simp
          next
            case (Fl p)
            have "\<forall>(p, q) \<in> set (sd_setitem p quantity side). \<not> q \<le> Fl 0"
              using Cons.prems nq sd_setitem_pos [of side "\<lambda>p q. \<not> q \<le> Fl 0" p quantity]
              by blast
            from IH [OF this] show ?thesis using len n2 Inr pq nq Fl by simp
          qed
        qed
      qed
    qed
  qed
qed

lemma trim_bids_eq:
  "trim_bids md xs = (if 0 \<le> md then (drop (length xs - nat md) xs, None) else ([], Some KeyError))"
proof (induction xs)
  case Nil
  then show ?case by auto
next
  case (Cons x xs)
  show ?case
  proof (cases "int (length (x # xs)) > md")
    case True
    then have "length (x # xs) - nat md = Suc (length xs - nat md)" by auto
    with True Cons show ?thesis by simp
  next
    case False
    then have "length (x # xs) - nat md = 0" "0 \<le> md" by auto
    with False show ?thesis by simp
  qed
qed

lemma trim_asks_eq:
  "trim_asks md xs = (if 0 \<le> md then (take (nat md) xs, None) else ([], Some KeyError))"
proof (induction md xs rule: trim_asks.induct)
  case (1 md side)
  show ?case
  proof (cases "int (length side) > md")
    case True
    show ?thesis
    proof (cases "side = []")
      case True
      with \<open>int (length side) > md\<close> show ?thesis by (simp add: trim_asks.simps)
    next
      case False
      have "take (nat md) (butlast side) = take (nat md) side" if "0 \<le> md"
        using that True by (simp add: take_butlast)
      with 1 [OF True False] True False show ?thesis
        by (simp add: trim_asks.simps [of md side])
    qed
  next
    case False
    then show ?thesis by (simp add: trim_asks.simps [of md side])
  qed
qed

lemma trim_bids_props:
  "set (fst (trim_bids md side)) \<subseteq> set side
   \<and> (sorted_wrt (<) (map fst side) \<longrightarrow> sorted_wrt (<) (map fst (fst (trim_bids md side))))"
  by (auto simp: trim_bids_eq drop_map [symmetric] sorted_wrt_drop dest: in_set_dropD)

lemma trim_asks_props:
  "set (fst (trim_asks md side)) \<subseteq> set side
   \<and> (sorted_wrt (<) (map fst side) \<longrightarrow> sorted_wrt (<) (map fst (fst (trim_asks md side))))"
  by (auto simp: trim_asks_eq take_map [symmetric] sorted_wrt_take dest: in_set_takeD)

subsection \<open>The L2 book keeps its invariant\<close>

lemma l2_side_inv_Nil: "l2_side_inv is_bid []"
  by (simp add: l2_side_inv_def)

lemma l2_side_inv_setitem:
  assumes "l2_side_inv is_bid side" and "0 < qty"
  shows "l2_side_inv is_bid (sd_setitem (if is_bid then - price else price) (price, qty) side)"
proof -
  let ?k = "if is_bid then - price else price"
  have s: "sorted_wrt (<) (map fst (sd_setitem ?k (price, qty) side))"
    using assms(1) by (simp add: l2_side_inv_def sd_setitem_sorted)
  have "\<forall>(k, (p, q)) \<in> set (sd_setitem ?k (price, qty) side).
          k = (if is_bid then - p else p) \<and> 0 < q"
    using assms sd_setitem_set [of ?k "(price, qty)" side]
    by (fastforce simp: l2_side_inv_def)
  with s show ?thesis by (simp add: l2_side_inv_def)
qed

lemma l2_fill_inv:
  "l2_side_inv is_bid side \<Longrightarrow> l2_side_inv is_bid (fst (l2_fill pf is_bid ls side))"
proof (induction ls arbitrary: side)
  case Nil
  then show ?case by simp
next
  case (Cons level ls)
  show ?case
    using Cons.prems Cons.IH l2_side_inv_setitem [OF Cons.prems]
    by (auto split: sum.splits prod.splits pyfloat.splits)
qed

lemma l2_update_inv:
  assumes "l2_inv b"
  shows "l2_inv (fst (l2_update pf now b data))"
proof -
  have b: "\<And>ls. l2_side_inv True (fst (l2_fill pf True ls []))"
    by (rule l2_fill_inv) (rule l2_side_inv_Nil)
  have a: "\<And>ls. l2_side_inv False (fst (l2_fill pf False ls []))"
    by (rule l2_fill_inv) (rule l2_side_inv_Nil)
  have fb: "\<And>ls s e. l2_fill pf True ls [] = (s, e) \<Longrightarrow> l2_side_inv True s"
    using b by (metis fst_conv)
  have fa: "\<And>ls s e. l2_fill pf False ls [] = (s, e) \<Longrightarrow> l2_side_inv False s"
    using a by (metis fst_conv)
  show ?thesis
    using assms
    by (auto simp: l2_update_def l2_inv_def Let_def l2_side_inv_Nil
             split: sum.splits prod.splits option.splits dest: fb fa)
qed

lemma l2_run_inv: "l2_inv b \<Longrightarrow> l2_inv (l2_run pf b updates)"
  unfolding l2_run_def
  by (induction updates arbitrary: b) (auto simp: l2_update_inv split: prod.splits)

lemma l2_inv_init: "l2_inv L2_init"
  by (simp add: l2_inv_def L2_init_def l2_side_inv_def)

lemma l2_side_inv_bids:
  assumes "l2_side_inv True side"
  shows "sorted_wrt (>) (l2_prices side) \<and> (\<forall>q \<in> set (l2_quantities side). 0 < q)"
proof -
  have k: "\<forall>x \<in> set side. fst x = - fst (snd x) \<and> 0 < snd (snd x)"
    using assms by (auto simp: l2_side_inv_def)
  have "sorted_wrt (\<lambda>x y. fst x < fst y) side"
    using assms by (simp add: l2_side_inv_def sorted_wrt_map)
  then have "sorted_wrt (\<lambda>x y. fst (snd x) > fst (snd y)) side"
    by (rule sorted_wrt_mono_rel [rotated]) (use k in auto)
  then have "sorted_wrt (>) (map (\<lambda>x. fst (snd x)) side)"
    by (simp add: sorted_wrt_map)
  moreover have "l2_prices side = map (\<lambda>x. fst (snd x)) side"
    by (auto simp: l2_prices_def)
  ultimately show ?thesis using k by (auto simp: l2_quantities_def)
qed

lemma l2_side_inv_asks:
  assumes "l2_side_inv False side"
  shows "sorted_wrt (<) (l2_prices side) \<and> (\<forall>q \<in> set (l2_quantities side). 0 < q)"
proof -
  have k: "\<forall>x \<in> set side. fst x = fst (snd x) \<and> 0 < snd (snd x)"
    using assms by (auto simp: l2_side_inv_def)
  have "sorted_wrt (\<lambda>x y. fst x < fst y) side"
    using assms by (simp add: l2_side_inv_def sorted_wrt_map)
  then have "sorted_wrt (\<lambda>x y. fst (snd x) < fst (snd y)) side"
    by (rule sorted_wrt_mono_rel [rotated]) (use k in auto)
  then have "sorted_wrt (<) (map (\<lambda>x. fst (snd x)) side)"
    by (simp add: sorted_wrt_map)
  moreover have "l2_prices side = map (\<lambda>x. fst (snd x)) side"
    by (auto simp: l2_prices_def)
  ultimately show ?thesis using k by (auto simp: l2_quantities_def)
qed

subsection \<open>The book of order\_book.py keeps its invariant\<close>

text \<open>The definitions unfolded to evaluate the books on concrete snapshots.\<close>

lemmas eval_defs =
  ob_run_def ob_update_def update_side_def update_side_log_def parse_level_def set_side_def
  side_of_def calculate_mid_price_def ob_get_mid_price_def OrderBook_init_def
  l2_run_def l2_update_def unpack2_def L2_init_def l2_prices_def l2_quantities_def
  get_best_bid_def get_best_ask_def get_mid_price_def
  snapshot_def mk_level_def dict_get_def ebind_def Let_def
  decimal_float_def unsigned_decimal_def digit_val_def trim_asks.simps

lemma update_side_result:
  "\<exists>side. fst (update_side pf levels is_bid b) = set_side is_bid side b
          \<and> sorted_wrt (<) (map fst side) \<and> (\<forall>(p, q) \<in> set side. \<not> q \<le> Fl 0)"
proof (cases "py_iter levels")
  case (Inl e)
  then show ?thesis by (auto simp: update_side_def)
next
  case (Inr ls)
  obtain s ws err where ul: "update_levels pf ls [] [] = (s, ws, err)"
    by (cases "update_levels pf ls [] []") auto
  have s: "sorted_wrt (<) (map fst s)"
    using update_levels_sorted [of "[]" pf ls "[]"] by (simp add: ul)
  have p: "\<forall>(p, q) \<in> set s. \<not> q \<le> Fl 0"
    using update_levels_pos [of "[]" pf ls "[]"] by (simp add: ul)
  show ?thesis
  proof (cases err)
    case (Some e)
    then have "fst (update_side pf levels is_bid b) = set_side is_bid s b"
      by (simp add: update_side_def Inr ul)
    with s p show ?thesis by blast
  next
    case None
    let ?t = "fst (if is_bid then trim_bids (ob_max_depth b) s else trim_asks (ob_max_depth b) s)"
    have "fst (update_side pf levels is_bid b) = set_side is_bid ?t b"
      using None by (simp add: update_side_def Inr ul Let_def split: prod.splits)
    moreover have "sorted_wrt (<) (map fst ?t)"
      using s trim_bids_props [of "ob_max_depth b" s] trim_asks_props [of "ob_max_depth b" s]
      by simp
    moreover have "\<forall>(p, q) \<in> set ?t. \<not> q \<le> Fl 0"
      using p trim_bids_props [of "ob_max_depth b" s] trim_asks_props [of "ob_max_depth b" s]
      by (auto split: if_splits)
    ultimately show ?thesis by blast
  qed
qed

lemma update_side_inv:
  assumes "ob_inv b"
  shows "ob_inv (fst (update_side pf levels is_bid b))"
proof -
  obtain side where "fst (update_side pf levels is_bid b) = set_side is_bid side b"
    and "sorted_wrt (<) (map fst side)" and "\<forall>(p, q) \<in> set side. \<not> q \<le> Fl 0"
    using update_side_result by blast
  with assms show ?thesis by (auto simp: ob_inv_def set_side_def)
qed

lemma calculate_mid_price_sides:
  "ob_asks (calculate_mid_price b) = ob_asks b \<and> ob_bids (calculate_mid_price b) = ob_bids b"
  by (simp add: calculate_mid_price_def Let_def)

lemma ob_inv_cong:
  "ob_asks b' = ob_asks b \<Longrightarrow> ob_bids b' = ob_bids b \<Longrightarrow> ob_inv b' = ob_inv b"
  by (simp add: ob_inv_def)

lemma ob_update_inv:
  assumes "ob_inv b"
  shows "ob_inv (fst (ob_update pf now b data))"
proof -
  let ?asks = "dict_get data ''asks'' (PyList [])"
  let ?bids = "dict_get data ''bids'' (PyList [])"
  let ?r1 = "if truthy ?asks then update_side pf ?asks False b else (b, None)"
  let ?b1 = "fst ?r1"
  let ?r2 = "if truthy ?bids then update_side pf ?bids True ?b1 else (?b1, None)"
  let ?b2 = "fst ?r2"
  have i1: "ob_inv ?b1" using assms by (simp add: update_side_inv)
  have i2: "ob_inv ?b2" using i1 by (simp add: update_side_inv)
  have "fst (ob_update pf now b data) = ?b1 \<or> fst (ob_update pf now b data) = ?b2
        \<or> (\<exists>ts. fst (ob_update pf now b data)
                 = (calculate_mid_price (?b2\<lparr>ob_last_update_time := ts\<rparr>))\<lparr>ob_is_initialized := True\<rparr>)"
    by (auto simp: ob_update_def Let_def split: prod.splits option.splits)
  moreover have "ob_inv ((calculate_mid_price (?b2\<lparr>ob_last_update_time := ts\<rparr>))\<lparr>ob_is_initialized := True\<rparr>)" for ts
    using i2 calculate_mid_price_sides [of "?b2\<lparr>ob_last_update_time := ts\<rparr>"]
    by (simp add: ob_inv_def)
  ultimately show ?thesis using i1 i2 by auto
qed

lemma ob_run_inv: "ob_inv b \<Longrightarrow> ob_inv (ob_run pf b updates)"
  unfolding ob_run_def
  by (induction updates arbitrary: b) (auto simp: ob_update_inv split: prod.splits)

lemma ob_inv_init: "ob_inv (OrderBook_init symbol max_depth)"
  by (simp add: ob_inv_def OrderBook_init_def)

lemma strict_sorted_distinct: "sorted_wrt (<) (xs :: real list) \<Longrightarrow> distinct xs"
  by (simp add: strict_sorted_iff)

lemma strict_sorted_desc_distinct: "sorted_wrt (>) (xs :: real list) \<Longrightarrow> distinct xs"
  by (induction xs) auto

text \<open>
  Claim C2, as stated, fails for the book of order\_book.py: both of its sides are
  \<open>SortedDict\<close>s keyed by the price, so iterating the bid side yields ascending prices
  (the best bid is the last item). After one snapshot with the bids 100 and 99 the bid
  side iterates as 99, 100.
\<close>

theorem bids_iterate_ascending_counterexample:
  "map fst (ob_bids (ob_run decimal_float (OrderBook_init ''BTC-USDT'' 20)
      [(0, map_of [(''bids'', PyList [PyList [PyStr ''100'', PyStr ''1''],
                                      PyList [PyStr ''99'', PyStr ''1'']])])])) = [99, 100]
   \<and> \<not> sorted_wrt (>) (map fst (ob_bids (ob_run decimal_float (OrderBook_init ''BTC-USDT'' 20)
      [(0, map_of [(''bids'', PyList [PyList [PyStr ''100'', PyStr ''1''],
                                      PyList [PyStr ''99'', PyStr ''1'']])])])))"
  by (simp add: eval_defs)

text \<open>
  Claim C2, amended. For every sequence of snapshot updates applied to an initially
  empty book, raising or not, in which no level is stored under a price that is NaN:
  after each update each side holds at most one quantity per distinct price; in the
  L2 book of orderbook.py every stored quantity is > 0, iterating the bid side yields
  strictly descending prices and iterating the ask side strictly ascending prices; in
  the book of order\_book.py no stored quantity is \<open><= 0\<close>, that is, every stored
  quantity is > 0 or is NaN (the test \<open>quantity <= 0\<close> lets the quantity token \<open>nan\<close>
  through), and both sides iterate in strictly ascending price order.
\<close>

theorem book_invariants_after_updates:
  "(l2_nan_key_free pf L2_init updates \<longrightarrow>
      (let b = l2_run pf L2_init updates in
        (\<forall>q \<in> set (l2_quantities (l2_bids b)) \<union> set (l2_quantities (l2_asks b)). 0 < q)
        \<and> sorted_wrt (>) (l2_prices (l2_bids b)) \<and> sorted_wrt (<) (l2_prices (l2_asks b))
        \<and> distinct (l2_prices (l2_bids b)) \<and> distinct (l2_prices (l2_asks b))))
   \<and> (ob_nan_key_free pf (OrderBook_init symbol max_depth) updates \<longrightarrow>
      (let b = ob_run pf (OrderBook_init symbol max_depth) updates in
        (\<forall>(p, q) \<in> set (ob_bids b) \<union> set (ob_asks b).
            q = NaN \<or> (\<exists>r. q = Fl r \<and> 0 < r))
        \<and> sorted_wrt (<) (map fst (ob_bids b)) \<and> sorted_wrt (<) (map fst (ob_asks b))
        \<and> distinct (map fst (ob_bids b)) \<and> distinct (map fst (ob_asks b))))"
proof -
  have l2: "l2_inv (l2_run pf L2_init updates)"
    by (rule l2_run_inv) (rule l2_inv_init)
  have ob: "ob_inv (ob_run pf (OrderBook_init symbol max_depth) updates)"
    by (rule ob_run_inv) (rule ob_inv_init)
  have q: "q = NaN \<or> (\<exists>r. q = Fl r \<and> 0 < r)" if "\<not> q \<le> Fl 0" for q
    using that by (cases q) auto
  have obq: "\<forall>(p, q) \<in> set (ob_bids (ob_run pf (OrderBook_init symbol max_depth) updates))
                     \<union> set (ob_asks (ob_run pf (OrderBook_init symbol max_depth) updates)).
               q = NaN \<or> (\<exists>r. q = Fl r \<and> 0 < r)"
    using ob q by (fastforce simp: ob_inv_def)
  have A: "let b = l2_run pf L2_init updates in
        (\<forall>q \<in> set (l2_quantities (l2_bids b)) \<union> set (l2_quantities (l2_asks b)). 0 < q)
        \<and> sorted_wrt (>) (l2_prices (l2_bids b)) \<and> sorted_wrt (<) (l2_prices (l2_asks b))
        \<and> distinct (l2_prices (l2_bids b)) \<and> distinct (l2_prices (l2_asks b))"
    using l2_side_inv_bids [of "l2_bids (l2_run pf L2_init updates)"]
          l2_side_inv_asks [of "l2_asks (l2_run pf L2_init updates)"] l2
    by (auto simp: Let_def l2_inv_def strict_sorted_distinct strict_sorted_desc_distinct)
  have B: "let b = ob_run pf (OrderBook_init symbol max_depth) updates in
        (\<forall>(p, q) \<in> set (ob_bids b) \<union> set (ob_asks b).
            q = NaN \<or> (\<exists>r. q = Fl r \<and> 0 < r))
        \<and> sorted_wrt (<) (map fst (ob_bids b)) \<and> sorted_wrt (<) (map fst (ob_asks b))
        \<and> distinct (map fst (ob_bids b)) \<and> distinct (map fst (ob_asks b))"
    using ob obq by (simp add: Let_def ob_inv_def strict_sorted_distinct)
  from A B show ?thesis by blast
qed

text \<open>The witness: two snapshots; the second one holds a bid with the quantity 0, which
  is dropped by both books, and an ask with the quantity token \<open>nan\<close>, which the L2
  book drops and the book of order\_book.py stores.\<close>

theorem book_invariants_after_updates_witness:
  "l2_nan_key_free decimal_float L2_init
      [(0, snapshot [(PyStr ''100'', PyStr ''2''), (PyStr ''99.5'', PyStr ''1'')]
                    [(PyStr ''101'', PyStr ''3'')]),
       (1, snapshot [(PyStr ''99'', PyStr ''4''), (PyStr ''100.5'', PyStr ''0''),
                     (PyStr ''100'', PyStr ''1'')]
                    [(PyStr ''102'', PyStr ''nan''), (PyStr ''101'', PyStr ''2'')])]
   \<and> l2_bids (l2_run decimal_float L2_init
      [(0, snapshot [(PyStr ''100'', PyStr ''2''), (PyStr ''99.5'', PyStr ''1'')]
                    [(PyStr ''101'', PyStr ''3'')]),
       (1, snapshot [(PyStr ''99'', PyStr ''4''), (PyStr ''100.5'', PyStr ''0''),
                     (PyStr ''100'', PyStr ''1'')]
                    [(PyStr ''102'', PyStr ''nan''), (PyStr ''101'', PyStr ''2'')])])
       = [(- 100, (100, 1)), (- 99, (99, 4))]
   \<and> l2_asks (l2_run decimal_float L2_init
      [(0, snapshot [(PyStr ''100'', PyStr ''2''), (PyStr ''99.5'', PyStr ''1'')]
                    [(PyStr ''101'', PyStr ''3'')]),
       (1, snapshot [(PyStr ''99'', PyStr ''4''), (PyStr ''100.5'', PyStr ''0''),
                     (PyStr ''100'', PyStr ''1'')]
                    [(PyStr ''102'', PyStr ''nan''), (PyStr ''101'', PyStr ''2'')])])
       = [(101, (101, 2))]
   \<and> sorted_wrt (>) (l2_prices (l2_bids (l2_run decimal_float L2_init
      [(0, snapshot [(PyStr ''100'', PyStr ''2''), (PyStr ''99.5'', PyStr ''1'')]
                    [(PyStr ''101'', PyStr ''3'')]),
       (1, snapshot [(PyStr ''99'', PyStr ''4''), (PyStr ''100.5'', PyStr ''0''),
                     (PyStr ''100'', PyStr ''1'')]
                    [(PyStr ''102'', PyStr ''nan''), (PyStr ''101'', PyStr ''2'')])])))
   \<and> ob_nan_key_free decimal_float (OrderBook_init ''BTC-USDT'' 20)
      [(0, snapshot [(PyStr ''100'', PyStr ''2''), (PyStr ''99.5'', PyStr ''1'')]
                    [(PyStr ''101'', PyStr ''3'')]),
       (1, snapshot [(PyStr ''99'', PyStr ''4''), (PyStr ''100.5'', PyStr ''0''),
                     (PyStr ''100'', PyStr ''1'')]
                    [(PyStr ''102'', PyStr ''nan''), (PyStr ''101'', PyStr ''2'')])]
   \<and> ob_asks (ob_run decimal_float (OrderBook_init ''BTC-USDT'' 20)
      [(0, snapshot [(PyStr ''100'', PyStr ''2''), (PyStr ''99.5'', PyStr ''1'')]
                    [(PyStr ''101'', PyStr ''3'')]),
       (1, snapshot [(PyStr ''99'', PyStr ''4''), (PyStr ''100.5'', PyStr ''0''),
                     (PyStr ''100'', PyStr ''1'')]
                    [(PyStr ''102'', PyStr ''nan''), (PyStr ''101'', PyStr ''2'')])])
       = [(101, Fl 2), (102, NaN)]
   \<and> sorted_wrt (<) (map fst (ob_asks (ob_run decimal_float (OrderBook_init ''BTC-USDT'' 20)
      [(0, snapshot [(PyStr ''100'', PyStr ''2''), (PyStr ''99.5'', PyStr ''1'')]
                    [(PyStr ''101'', PyStr ''3'')]),
       (1, snapshot [(PyStr ''99'', PyStr ''4''), (PyStr ''100.5'', PyStr ''0''),
                     (PyStr ''100'', PyStr ''1'')]
                    [(PyStr ''102'', PyStr ''nan''), (PyStr ''101'', PyStr ''2'')])])))"
proof -
  let ?U = "[(0, snapshot [(PyStr ''100'', PyStr ''2''), (PyStr ''99.5'', PyStr ''1'')]
                    [(PyStr ''101'', PyStr ''3'')]),
       (1, snapshot [(PyStr ''99'', PyStr ''4''), (PyStr ''100.5'', PyStr ''0''),
                     (PyStr ''100'', PyStr ''1'')]
                    [(PyStr ''102'', PyStr ''nan''), (PyStr ''101'', PyStr ''2'')])]"
  have f1: "l2_nan_key_free decimal_float L2_init ?U"
    by (simp add: eval_defs)
  have a1: "l2_bids (l2_run decimal_float L2_init ?U) = [(- 100, (100, 1)), (- 99, (99, 4))]"
    by (simp add: eval_defs)
  have a2: "l2_asks (l2_run decimal_float L2_init ?U) = [(101, (101, 2))]"
    by (simp add: eval_defs)
  have f2: "ob_nan_key_free decimal_float (OrderBook_init ''BTC-USDT'' 20) ?U"
    by (simp add: eval_defs)
  have b: "ob_asks (ob_run decimal_float (OrderBook_init ''BTC-USDT'' 20) ?U)
             = [(101, Fl 2), (102, NaN)]"
    by (simp add: eval_defs)
  note t = book_invariants_after_updates [of decimal_float ?U "''BTC-USDT''" 20]
  have c: "sorted_wrt (>) (l2_prices (l2_bids (l2_run decimal_float L2_init ?U)))"
    using t [THEN conjunct1] f1 by (simp add: Let_def)
  have d: "sorted_wrt (<) (map fst (ob_asks (ob_run decimal_float
           (OrderBook_init ''BTC-USDT'' 20) ?U)))"
    using t [THEN conjunct2] f2 by (simp add: Let_def)
  from f1 a1 a2 c f2 b d show ?thesis by (intro conjI)
qed

subsection \<open>Mid price\<close>













subsection \<open>Malformed levels\<close>

lemma parse_level_PyList:
  assumes "2 \<le> length toks"
  shows "(\<exists>x y. parse_level pf (PyList toks) = Inr (x, y) \<and> level_parse pf toks = Some (x, y))
       \<or> (\<exists>e. parse_level pf (PyList toks) = Inl e \<and> (e = ValueError \<or> e = TypeError)
              \<and> level_parse pf toks = None)"
proof -
  obtain a b rest where t: "toks = a # b # rest"
    using assms by (cases toks; cases "tl toks") auto
  show ?thesis
  proof (cases "py_float pf a")
    case (Inl e)
    with py_float_err [OF Inl] show ?thesis
      by (auto simp: t parse_level_def level_parse_def ebind_def)
  next
    case (Inr x)
    show ?thesis
    proof (cases "py_float pf b")
      case (Inl e)
      with py_float_err [OF Inl] Inr show ?thesis
        by (auto simp: t parse_level_def level_parse_def ebind_def)
    next
      case Inr2: (Inr y)
      with Inr show ?thesis
        by (simp add: t parse_level_def level_parse_def ebind_def)
    qed
  qed
qed

lemma level_parse_short: "length toks < 2 \<Longrightarrow> level_parse pf toks = None"
  by (cases toks; cases "tl toks") (auto simp: level_parse_def)

lemma accepted_Cons:
  "accepted pf (toks # levels) =
     (case level_value pf toks of
        None \<Rightarrow> accepted pf levels
      | Some xy \<Rightarrow> xy # accepted pf levels)"
  by (simp add: accepted_def map_filter_simps split: option.splits)

lemma accepted_Nil: "accepted pf [] = []"
  by (simp add: accepted_def map_filter_simps)

lemma store_all_Cons: "store_all ((x, y) # items) side = store_all items (sd_setitem x y side)"
  by (simp add: store_all_def)

lemma store_all_Nil: "store_all [] side = side"
  by (simp add: store_all_def)

lemma store_all_sorted:
  "sorted_wrt (<) (map fst side) \<Longrightarrow> sorted_wrt (<) (map fst (store_all items side))"
  by (induction items arbitrary: side) (auto simp: store_all_Cons store_all_Nil sd_setitem_sorted)

lemma map_of_store_all:
  "map_of (store_all items side) = map_of side ++ map_of (rev items)"
proof (induction items arbitrary: side)
  case Nil
  then show ?case by (simp add: store_all_Nil)
next
  case (Cons it items)
  obtain x y where it: "it = (x, y)" by (cases it)
  have "map_of (store_all (it # items) side) = (map_of side)(x \<mapsto> y) ++ map_of (rev items)"
    unfolding it store_all_Cons Cons.IH map_of_sd_setitem ..
  also have "\<dots> = map_of side ++ map_of (rev (it # items))"
    by (rule ext) (simp add: it map_add_def split: option.splits)
  finally show ?case .
qed

lemma accepted_filter:
  "accepted pf (filter (\<lambda>toks. level_value pf toks \<noteq> None) levels) = accepted pf levels"
  by (induction levels) (auto simp: accepted_Cons accepted_Nil split: option.splits)

lemma logged_not_valued: "logged pf toks \<Longrightarrow> level_value pf toks = None"
  by (simp add: logged_def level_value_def)

text \<open>One step of the loop of \<open>_update_side\<close> on a level that is a list.\<close>

lemma update_levels_step:
  assumes "\<not> nan_priced pf toks"
  shows "update_levels pf (PyList toks # rest) side ws =
           update_levels pf rest
             (case level_value pf toks of None \<Rightarrow> side | Some (p, q) \<Rightarrow> sd_setitem p q side)
             (if logged pf toks then ws @ [PyList toks] else ws)"
proof (cases "length toks < 2")
  case True
  then show ?thesis
    by (simp add: level_parse_short level_value_def logged_def)
next
  case False
  then have l: "2 \<le> length toks" by simp
  from parse_level_PyList [OF l, of pf]
  consider (ok) x y where "parse_level pf (PyList toks) = Inr (x, y)"
      and "level_parse pf toks = Some (x, y)"
    | (bad) e where "parse_level pf (PyList toks) = Inl e" and "e = ValueError \<or> e = TypeError"
      and "level_parse pf toks = None"
    by blast
  then show ?thesis
  proof cases
    case ok
    show ?thesis
    proof (cases "y \<le> Fl 0")
      case True
      then show ?thesis
        using False ok by (simp add: level_value_def logged_def split: pyfloat.splits)
    next
      case ny: False
      then obtain pr where x: "x = Fl pr"
        using assms ok(2) by (cases x) (auto simp: nan_priced_def)
      show ?thesis
        using False ok ny x by (simp add: level_value_def logged_def)
    qed
  next
    case bad
    then show ?thesis
      using False l by (auto simp: level_value_def logged_def)
  qed
qed

lemma update_levels_lists:
  assumes "\<forall>toks \<in> set levels. \<not> nan_priced pf toks"
  shows "update_levels pf (map PyList levels) side ws =
           (store_all (accepted pf levels) side,
            ws @ map PyList (filter (logged pf) levels), None)"
  using assms
proof (induction levels arbitrary: side ws)
  case Nil
  then show ?case by (simp add: accepted_Nil store_all_Nil)
next
  case (Cons toks levels)
  have n: "\<not> nan_priced pf toks" and r: "\<forall>toks \<in> set levels. \<not> nan_priced pf toks"
    using Cons.prems by simp_all
  show ?case
  proof (cases "level_value pf toks")
    case None
    then show ?thesis
      using update_levels_step [OF n, of levels' side ws for levels'] Cons.IH [OF r]
      by (simp add: accepted_Cons)
  next
    case (Some xy)
    obtain p q where xy: "xy = (p, q)" by (cases xy)
    have nl: "\<not> logged pf toks" using Some logged_not_valued [of pf toks] by auto
    show ?thesis
      using update_levels_step [OF n, of levels' side ws for levels'] Cons.IH [OF r] Some nl
      by (simp add: accepted_Cons xy store_all_Cons)
  qed
qed

lemma update_side_lists:
  assumes "0 \<le> ob_max_depth b" and "\<forall>toks \<in> set levels. \<not> nan_priced pf toks"
  shows "update_side pf (PyList (map PyList levels)) is_bid b =
           (set_side is_bid
              (let full = store_all (accepted pf levels) []
               in if is_bid then drop (length full - nat (ob_max_depth b)) full
                  else take (nat (ob_max_depth b)) full) b, None)"
    and "update_side_log pf (PyList (map PyList levels)) = map PyList (filter (logged pf) levels)"
  using assms
  by (simp_all add: update_side_def update_side_log_def update_levels_lists trim_bids_eq
                    trim_asks_eq Let_def)

lemma side_of_set_side: "side_of is_bid (set_side is_bid side b) = side"
  by (simp add: side_of_def set_side_def)

lemma nan_priced_filter:
  "\<forall>toks \<in> set levels. \<not> nan_priced pf toks
   \<Longrightarrow> \<forall>toks \<in> set (filter P levels). \<not> nan_priced pf toks"
  by simp

lemma update_side_lists_props:
  assumes "0 \<le> ob_max_depth b" and "\<forall>toks \<in> set levels. \<not> nan_priced pf toks"
  shows "snd (update_side pf (PyList (map PyList levels)) is_bid b) = None
       \<and> update_side_log pf (PyList (map PyList levels))
           = map PyList (filter (logged pf) levels)
       \<and> update_side pf (PyList (map PyList levels)) is_bid b
           = update_side pf
               (PyList (map PyList (filter (\<lambda>toks. level_value pf toks \<noteq> None) levels)))
               is_bid b
       \<and> (let full = store_all (accepted pf levels) []
          in sorted_wrt (<) (map fst full)
             \<and> map_of full = map_of (rev (accepted pf levels))
             \<and> side_of is_bid (fst (update_side pf (PyList (map PyList levels)) is_bid b))
                 = (if is_bid then drop (length full - nat (ob_max_depth b)) full
                    else take (nat (ob_max_depth b)) full))"
proof -
  let ?full = "store_all (accepted pf levels) []"
  let ?md = "ob_max_depth b"
  let ?trimmed = "if is_bid then drop (length ?full - nat ?md) ?full else take (nat ?md) ?full"
  have u: "update_side pf (PyList (map PyList levels)) is_bid b
             = (set_side is_bid ?trimmed b, None)"
    using update_side_lists(1) [OF assms, of is_bid] by (simp add: Let_def)
  have f: "update_side pf
             (PyList (map PyList (filter (\<lambda>toks. level_value pf toks \<noteq> None) levels))) is_bid b
             = (set_side is_bid ?trimmed b, None)"
    using update_side_lists(1) [OF assms(1) nan_priced_filter [OF assms(2)], of _ is_bid]
    by (simp only: Let_def accepted_filter)
  have s: "sorted_wrt (<) (map fst ?full)"
    by (rule store_all_sorted) simp
  have m: "map_of ?full = map_of (rev (accepted pf levels))"
    by (simp add: map_of_store_all)
  show ?thesis
    using u f s m update_side_lists(2) [OF assms]
    by (simp add: side_of_set_side Let_def)
qed

lemma unpack2_mk_level: "unpack2 (mk_level (a, b)) = Inr (a, b)"
  by (simp add: unpack2_def mk_level_def ebind_def)

text \<open>One step of a loop of \<open>update\<close> of orderbook.py on a level pair.\<close>

lemma l2_fill_step:
  assumes "\<not> l2_nan_priced pf pq"
  shows "(\<not> parses pf pq \<and> (\<exists>e. l2_fill pf is_bid (mk_level pq # rest) side = (side, Some e)
                                \<and> (e = ValueError \<or> e = TypeError)))
       \<or> (parses pf pq \<and> (\<exists>side'. l2_fill pf is_bid (mk_level pq # rest) side
                                      = l2_fill pf is_bid rest side'))"
proof -
  obtain a b where pq: "pq = (a, b)" by (cases pq)
  show ?thesis
  proof (cases "py_float pf a")
    case (Inl e)
    with py_float_err [OF Inl] show ?thesis
      by (auto simp: pq unpack2_mk_level ebind_def parses_def level_parse_def)
  next
    case (Inr x)
    show ?thesis
    proof (cases "py_float pf b")
      case (Inl e)
      with py_float_err [OF Inl] Inr show ?thesis
        by (auto simp: pq unpack2_mk_level ebind_def parses_def level_parse_def)
    next
      case Inr2: (Inr y)
      have p: "parses pf pq" using Inr Inr2 by (simp add: pq parses_def level_parse_def)
      have "\<exists>side'. l2_fill pf is_bid (mk_level pq # rest) side = l2_fill pf is_bid rest side'"
      proof (cases y)
        case NaN
        then show ?thesis using Inr Inr2 by (auto simp: pq unpack2_mk_level ebind_def)
      next
        case (Fl q)
        show ?thesis
        proof (cases "q > 0")
          case True
          then obtain pr where "x = Fl pr"
            using assms Inr Inr2 Fl by (cases x) (auto simp: pq l2_nan_priced_def level_parse_def)
          then show ?thesis
            using Inr Inr2 Fl True by (auto simp: pq unpack2_mk_level ebind_def)
        next
          case False
          then show ?thesis using Inr Inr2 Fl by (auto simp: pq unpack2_mk_level ebind_def)
        qed
      qed
      with p show ?thesis by blast
    qed
  qed
qed

lemma l2_fill_pairs:
  assumes "\<forall>pq \<in> set pairs. \<not> l2_nan_priced pf pq"
  shows "((snd (l2_fill pf is_bid (map mk_level pairs) side) = None)
            = (\<forall>pq \<in> set pairs. parses pf pq))
       \<and> (\<forall>e. snd (l2_fill pf is_bid (map mk_level pairs) side) = Some e
              \<longrightarrow> e = ValueError \<or> e = TypeError)"
  using assms
proof (induction pairs arbitrary: side)
  case Nil
  then show ?case by simp
next
  case (Cons pq pairs)
  have n: "\<not> l2_nan_priced pf pq" and r: "\<forall>pq \<in> set pairs. \<not> l2_nan_priced pf pq"
    using Cons.prems by simp_all
  from l2_fill_step [OF n, of is_bid "map mk_level pairs" side]
  consider (bad) e where "\<not> parses pf pq"
      and "l2_fill pf is_bid (mk_level pq # map mk_level pairs) side = (side, Some e)"
      and "e = ValueError \<or> e = TypeError"
    | (ok) side' where "parses pf pq"
      and "l2_fill pf is_bid (mk_level pq # map mk_level pairs) side
             = l2_fill pf is_bid (map mk_level pairs) side'"
    by blast
  then show ?case
  proof cases
    case bad
    then show ?thesis by auto
  next
    case ok
    show ?thesis
      using Cons.IH [OF r, of side'] ok(1) unfolding list.map ok(2) by simp
  qed
qed

lemma snapshot_get:
  "dict_get (snapshot bid_pairs ask_pairs) ''bids'' d = PyList (map mk_level bid_pairs)"
  "dict_get (snapshot bid_pairs ask_pairs) ''asks'' d = PyList (map mk_level ask_pairs)"
  by (simp_all add: snapshot_def dict_get_def)

lemma l2_update_snapshot:
  assumes "\<forall>pq \<in> set bid_pairs \<union> set ask_pairs. \<not> l2_nan_priced pf pq"
  shows "((snd (l2_update pf now b (snapshot bid_pairs ask_pairs)) = None)
            = (\<forall>pq \<in> set bid_pairs \<union> set ask_pairs. parses pf pq))
       \<and> (\<forall>e. snd (l2_update pf now b (snapshot bid_pairs ask_pairs)) = Some e
              \<longrightarrow> e = ValueError \<or> e = TypeError)"
proof -
  obtain bs be where fb: "l2_fill pf True (map mk_level bid_pairs) [] = (bs, be)"
    by (cases "l2_fill pf True (map mk_level bid_pairs) []")
  obtain as ae where fa: "l2_fill pf False (map mk_level ask_pairs) [] = (as, ae)"
    by (cases "l2_fill pf False (map mk_level ask_pairs) []")
  have nb: "\<forall>pq \<in> set bid_pairs. \<not> l2_nan_priced pf pq"
    and na: "\<forall>pq \<in> set ask_pairs. \<not> l2_nan_priced pf pq"
    using assms by auto
  have b: "(be = None) = (\<forall>pq \<in> set bid_pairs. parses pf pq)"
    and bk: "\<And>e. be = Some e \<Longrightarrow> e = ValueError \<or> e = TypeError"
    using l2_fill_pairs [OF nb, of True "[]"] by (simp_all add: fb)
  have a: "(ae = None) = (\<forall>pq \<in> set ask_pairs. parses pf pq)"
    and ak: "\<And>e. ae = Some e \<Longrightarrow> e = ValueError \<or> e = TypeError"
    using l2_fill_pairs [OF na, of False "[]"] by (simp_all add: fa)
  show ?thesis
  proof (cases be)
    case (Some e)
    then show ?thesis
      using b bk [OF Some] by (auto simp: l2_update_def snapshot_get fb Let_def)
  next
    case None
    show ?thesis
    proof (cases ae)
      case (Some e)
      then show ?thesis
        using None a b ak [OF Some] by (auto simp: l2_update_def snapshot_get fb fa Let_def)
    next
      case aN: None
      then show ?thesis
        using None a b by (auto simp: l2_update_def snapshot_get fb fa Let_def)
    qed
  qed
qed

text \<open>
  Claim C1, as stated, fails for \<open>OrderBook.update\<close> of orderbook.py: its handler logs
  the exception and raises it again. A snapshot whose second bid has the price token
  \<open>x\<close> raises \<open>ValueError\<close>; the bid before it stays stored, the well-formed bid after
  it and the asks are not applied.
\<close>

theorem l2_update_reraises_counterexample:
  "snd (l2_update decimal_float 0 L2_init
          (snapshot [(PyStr ''100'', PyStr ''2''), (PyStr ''x'', PyStr ''2''),
                     (PyStr ''98'', PyStr ''1'')]
                    [(PyStr ''101'', PyStr ''3'')])) = Some ValueError
   \<and> l2_bids (fst (l2_update decimal_float 0 L2_init
          (snapshot [(PyStr ''100'', PyStr ''2''), (PyStr ''x'', PyStr ''2''),
                     (PyStr ''98'', PyStr ''1'')]
                    [(PyStr ''101'', PyStr ''3'')]))) = [(- 100, (100, 2))]
   \<and> l2_asks (fst (l2_update decimal_float 0 L2_init
          (snapshot [(PyStr ''100'', PyStr ''2''), (PyStr ''x'', PyStr ''2''),
                     (PyStr ''98'', PyStr ''1'')]
                    [(PyStr ''101'', PyStr ''3'')]))) = []"
  by (simp add: eval_defs)

text \<open>
  Claim C1, amended. For \<open>_update_side\<close> of order\_book.py (the book of the simulation
  engine, with a maximal depth that is not negative) and every list of levels that are
  lists of any length, as long as no level is to be stored under a price that is NaN:
  the call never raises, whatever the tokens are; it logs a warning for exactly the
  levels of two entries or more whose price or quantity (the first two entries) fails
  to parse; the result is the one of the same update without the skipped levels (those
  of fewer than two entries, those that fail to parse and those whose quantity is
  \<open><= 0\<close>); and the side it stores is the list in ascending price order that holds, for
  each price, the quantity of the last level accepted with that price, trimmed to the
  highest (bids) or lowest (asks) prices up to the maximal depth. \<open>update\<close> of
  orderbook.py, on a snapshot of level pairs of which none is to be stored under a
  price that is NaN, raises exactly when some pair of the snapshot fails to parse, and
  then with \<open>ValueError\<close> or \<open>TypeError\<close>.
\<close>

theorem update_side_skips_malformed:
  assumes "0 \<le> ob_max_depth b"
    and "\<forall>toks \<in> set levels. \<not> nan_priced pf toks"
    and "\<forall>pq \<in> set bid_pairs \<union> set ask_pairs. \<not> l2_nan_priced pf pq"
  shows "snd (update_side pf (PyList (map PyList levels)) is_bid b) = None
       \<and> update_side_log pf (PyList (map PyList levels))
           = map PyList (filter (logged pf) levels)
       \<and> update_side pf (PyList (map PyList levels)) is_bid b
           = update_side pf
               (PyList (map PyList (filter (\<lambda>toks. level_value pf toks \<noteq> None) levels)))
               is_bid b
       \<and> (let full = store_all (accepted pf levels) []
          in sorted_wrt (<) (map fst full)
             \<and> map_of full = map_of (rev (accepted pf levels))
             \<and> side_of is_bid (fst (update_side pf (PyList (map PyList levels)) is_bid b))
                 = (if is_bid then drop (length full - nat (ob_max_depth b)) full
                    else take (nat (ob_max_depth b)) full))
       \<and> ((snd (l2_update pf now l2 (snapshot bid_pairs ask_pairs)) = None)
            = (\<forall>pq \<in> set bid_pairs \<union> set ask_pairs. parses pf pq))
       \<and> (\<forall>e. snd (l2_update pf now l2 (snapshot bid_pairs ask_pairs)) = Some e
              \<longrightarrow> e = ValueError \<or> e = TypeError)"
  using update_side_lists_props [OF assms(1,2), of is_bid]
        l2_update_snapshot [OF assms(3), of now l2]
  by blast

text \<open>The witness: levels in the format of OKX (price, size, liquidated orders, orders),
  one with a price that does not parse, one with the quantity 0 and one of a single
  entry; a maximal depth of 2 keeps the two highest of the three accepted bids.\<close>

theorem update_side_skips_malformed_witness:
  "0 \<le> ob_max_depth (OrderBook_init ''BTC-USDT'' 2)
   \<and> update_side decimal_float
        (PyList (map PyList [[PyStr ''100'', PyStr ''2'', PyStr ''0'', PyStr ''1''],
                     [PyStr ''x'', PyStr ''2'', PyStr ''0'', PyStr ''1''],
                     [PyStr ''99'', PyStr ''0'', PyStr ''0'', PyStr ''1''],
                     [PyStr ''97''],
                     [PyStr ''98'', PyStr ''1'', PyStr ''0'', PyStr ''3''],
                     [PyStr ''96'', PyStr ''5'', PyStr ''0'', PyStr ''1'']]))
        True (OrderBook_init ''BTC-USDT'' 2)
      = ((OrderBook_init ''BTC-USDT'' 2)\<lparr>ob_bids := [(98, Fl 1), (100, Fl 2)]\<rparr>, None)
   \<and> snd (update_side decimal_float
        (PyList (map PyList [[PyStr ''100'', PyStr ''2'', PyStr ''0'', PyStr ''1''],
                     [PyStr ''x'', PyStr ''2'', PyStr ''0'', PyStr ''1''],
                     [PyStr ''99'', PyStr ''0'', PyStr ''0'', PyStr ''1''],
                     [PyStr ''97''],
                     [PyStr ''98'', PyStr ''1'', PyStr ''0'', PyStr ''3''],
                     [PyStr ''96'', PyStr ''5'', PyStr ''0'', PyStr ''1'']]))
        True (OrderBook_init ''BTC-USDT'' 2)) = None
   \<and> update_side_log decimal_float
        (PyList (map PyList [[PyStr ''100'', PyStr ''2'', PyStr ''0'', PyStr ''1''],
                     [PyStr ''x'', PyStr ''2'', PyStr ''0'', PyStr ''1''],
                     [PyStr ''99'', PyStr ''0'', PyStr ''0'', PyStr ''1''],
                     [PyStr ''97''],
                     [PyStr ''98'', PyStr ''1'', PyStr ''0'', PyStr ''3''],
                     [PyStr ''96'', PyStr ''5'', PyStr ''0'', PyStr ''1'']]))
      = [PyList [PyStr ''x'', PyStr ''2'', PyStr ''0'', PyStr ''1'']]
   \<and> parses decimal_float (PyStr ''100'', PyStr ''2'')
   \<and> parses decimal_float (PyStr ''101'', PyStr ''3'')
   \<and> snd (l2_update decimal_float 0 L2_init
            (snapshot [(PyStr ''100'', PyStr ''2'')] [(PyStr ''101'', PyStr ''3'')])) = None"
proof -
  let ?L = "[[PyStr ''100'', PyStr ''2'', PyStr ''0'', PyStr ''1''],
             [PyStr ''x'', PyStr ''2'', PyStr ''0'', PyStr ''1''],
             [PyStr ''99'', PyStr ''0'', PyStr ''0'', PyStr ''1''],
             [PyStr ''97''],
             [PyStr ''98'', PyStr ''1'', PyStr ''0'', PyStr ''3''],
             [PyStr ''96'', PyStr ''5'', PyStr ''0'', PyStr ''1'']]"
  have h: "0 \<le> ob_max_depth (OrderBook_init ''BTC-USDT'' 2)"
    by (simp add: OrderBook_init_def)
  have n1: "\<forall>toks \<in> set ?L. \<not> nan_priced decimal_float toks"
    by (simp add: nan_priced_def level_parse_def decimal_float_def unsigned_decimal_def
                  digit_val_def Let_def)
  have n2: "\<forall>pq \<in> set [(PyStr ''100'', PyStr ''2'')] \<union> set [(PyStr ''101'', PyStr ''3'')].
              \<not> l2_nan_priced decimal_float pq"
    by (simp add: l2_nan_priced_def level_parse_def decimal_float_def unsigned_decimal_def
                  digit_val_def Let_def)
  have v: "update_side decimal_float (PyList (map PyList ?L)) True
             (OrderBook_init ''BTC-USDT'' 2)
      = ((OrderBook_init ''BTC-USDT'' 2)\<lparr>ob_bids := [(98, Fl 1), (100, Fl 2)]\<rparr>, None)"
    by (simp add: update_side_def parse_level_def set_side_def OrderBook_init_def
                  ebind_def decimal_float_def unsigned_decimal_def digit_val_def Let_def)
  have p: "parses decimal_float (PyStr ''100'', PyStr ''2'')"
       "parses decimal_float (PyStr ''101'', PyStr ''3'')"
    by (simp_all add: parses_def level_parse_def decimal_float_def unsigned_decimal_def
                      digit_val_def Let_def)
  have lg: "filter (logged decimal_float) ?L
              = [[PyStr ''x'', PyStr ''2'', PyStr ''0'', PyStr ''1'']]"
    by (simp add: logged_def level_parse_def decimal_float_def unsigned_decimal_def
                  digit_val_def Let_def)
  note t = update_side_skips_malformed [OF h n1 n2, of True 0 L2_init]
  have a: "snd (update_side decimal_float (PyList (map PyList ?L)) True
                  (OrderBook_init ''BTC-USDT'' 2)) = None"
    using t by (rule conjunct1)
  have l: "update_side_log decimal_float (PyList (map PyList ?L))
             = [PyList [PyStr ''x'', PyStr ''2'', PyStr ''0'', PyStr ''1'']]"
    using t [THEN conjunct2, THEN conjunct1] unfolding lg by simp
  have "(snd (l2_update decimal_float 0 L2_init
            (snapshot [(PyStr ''100'', PyStr ''2'')] [(PyStr ''101'', PyStr ''3'')])) = None)
        = (\<forall>pq \<in> set [(PyStr ''100'', PyStr ''2'')] \<union> set [(PyStr ''101'', PyStr ''3'')].
             parses decimal_float pq)"
    using t [THEN conjunct2, THEN conjunct2, THEN conjunct2, THEN conjunct2, THEN conjunct1] .
  then have b: "snd (l2_update decimal_float 0 L2_init
            (snapshot [(PyStr ''100'', PyStr ''2'')] [(PyStr ''101'', PyStr ''3'')])) = None"
    using p by simp
  from h v a l p b show ?thesis by (intro conjI)
qed

subsection \<open>Walking the book\<close>

lemma filled_nonpos:
  assumes "r \<le> 0" and "\<forall>(p, q) \<in> set L. 0 < p \<and> 0 < q"
  shows "filled_usd r L = 0 \<and> filled_asset r L = 0"
  using assms
proof (induction L arbitrary: r)
  case Nil
  then show ?case by simp
next
  case (Cons a L)
  obtain p q where a: "a = (p, q)" by (cases a)
  have pq: "0 < p * q" using Cons.prems(2) a by simp
  have "r - p * q \<le> 0" using Cons.prems(1) pq by simp
  then have "filled_usd (r - p * q) L = 0 \<and> filled_asset (r - p * q) L = 0"
    using Cons.IH Cons.prems(2) by simp
  moreover have "min (max r 0) (p * q) = 0" using Cons.prems(1) pq by simp
  ultimately show ?case by (simp add: a)
qed

lemma walk_levels_eq:
  assumes "0 < r" and "\<forall>(p, q) \<in> set L. 0 < p \<and> 0 < q"
  shows "walk_levels L r tc tq = Inr (r - filled_usd r L, tc + filled_usd r L, tq + filled_asset r L)"
  using assms
proof (induction L arbitrary: r tc tq)
  case Nil
  then show ?case by simp
next
  case (Cons a L)
  obtain p q where a: "a = (p, q)" by (cases a)
  have p: "0 < p" and pq: "0 < p * q" using Cons.prems(2) a by simp_all
  have rest: "\<forall>(p, q) \<in> set L. 0 < p \<and> 0 < q" using Cons.prems(2) by simp
  show ?case
  proof (cases "r \<le> p * q")
    case True
    then have z: "filled_usd (r - p * q) L = 0 \<and> filled_asset (r - p * q) L = 0"
      using filled_nonpos [OF _ rest, of "r - p * q"] by simp
    have m: "min r (p * q) = r" "min (max r 0) (p * q) = r"
      using True Cons.prems(1) by simp_all
    show ?thesis using p z True by (simp add: a Let_def m)
  next
    case False
    then have m: "min r (p * q) = p * q" "min (max r 0) (p * q) = p * q"
      using Cons.prems(1) pq by simp_all
    have r': "0 < r - p * q" using False by simp
    show ?thesis
      using p False Cons.IH [OF r' rest]
      by (simp add: a Let_def m algebra_simps)
  qed
qed





text \<open>The average price of a greedy walk: filled notional over filled quantity, 0 when
  nothing is filled.\<close>

lemma filled_asset_nonneg:
  assumes "\<forall>(p, q) \<in> set L. 0 < p \<and> 0 < q"
  shows "0 \<le> filled_asset r L"
  using assms
proof (induction L arbitrary: r)
  case Nil
  then show ?case by simp
next
  case (Cons a L)
  obtain p q where a: "a = (p, q)" by (cases a)
  have p: "0 < p" and q: "0 < q" using Cons.prems a by simp_all
  have pos: "\<forall>(p, q) \<in> set L. 0 < p \<and> 0 < q" using Cons.prems by simp
  have "0 \<le> min (max r 0) (p * q)" using p q by simp
  then have "0 \<le> min (max r 0) (p * q) / p" using p by simp
  moreover have "0 \<le> filled_asset (r - p * q) L" using Cons.IH [OF pos] .
  ultimately show ?case by (simp add: a)
qed

lemma filled_asset_pos:
  assumes "0 < r" and "L \<noteq> []" and "\<forall>(p, q) \<in> set L. 0 < p \<and> 0 < q"
  shows "0 < filled_asset r L"
proof -
  obtain p q L' where c: "L = (p, q) # L'" using assms(2) by (cases L) auto
  have p: "0 < p" and q: "0 < q" using assms(3) c by simp_all
  have pos: "\<forall>(p, q) \<in> set L'. 0 < p \<and> 0 < q" using assms(3) c by simp
  have "0 \<le> filled_asset (r - p * q) L'" using filled_asset_nonneg [OF pos] .
  moreover have "0 < min (max r 0) (p * q) / p" using assms(1) p q by simp
  ultimately show ?thesis by (simp add: c)
qed



lemma l2_levels_prices: "map fst (l2_levels side) = l2_prices side"
  by (auto simp: l2_levels_def l2_prices_def)

lemma l2_levels_pos:
  assumes "l2_side_inv is_bid side" and "\<forall>p \<in> set (l2_prices side). 0 < p"
  shows "\<forall>(p, q) \<in> set (l2_levels side). 0 < p \<and> 0 < q"
  using assms by (fastforce simp: l2_side_inv_def l2_levels_def l2_prices_def)



lemma l2_mid_price_pos:
  assumes "l2_inv b" and "l2_positive b" and "l2_bids b \<noteq> []" and "l2_asks b \<noteq> []"
  shows "\<exists>m. get_mid_price b = Some m \<and> 0 < m"
proof -
  obtain k p q rest where cb: "l2_bids b = (k, (p, q)) # rest"
    using assms(3) by (cases "l2_bids b") auto
  obtain k' p' q' rest' where ca: "l2_asks b = (k', (p', q')) # rest'"
    using assms(4) by (cases "l2_asks b") auto
  have "k = - p" "0 < p" using assms(1,2) cb
    by (auto simp: l2_inv_def l2_side_inv_def l2_positive_def l2_prices_def)
  moreover have "k' = p'" "0 < p'" using assms(1,2) ca
    by (auto simp: l2_inv_def l2_side_inv_def l2_positive_def l2_prices_def)
  ultimately have "get_mid_price b = Some ((p + p') / 2)" and "0 < (p + p') / 2"
    by (simp_all add: get_mid_price_def get_best_bid_def get_best_ask_def cb ca)
  then show ?thesis by blast
qed

lemma calculate_market_order_cost_eq:
  assumes "l2_inv b" and "l2_positive b" and "l2_bids b \<noteq> []" and "l2_asks b \<noteq> []"
    and "0 < quantity_usd"
  shows "\<exists>c. calculate_market_order_cost b quantity_usd is_buy = Inr c
           \<and> mo_total_cost c
               = filled_usd quantity_usd (l2_levels (if is_buy then l2_asks b else l2_bids b))
           \<and> mo_average_price c
               = filled_usd quantity_usd (l2_levels (if is_buy then l2_asks b else l2_bids b))
                 / filled_asset quantity_usd (l2_levels (if is_buy then l2_asks b else l2_bids b))
           \<and> mo_not_filled_warning c
               = (filled_usd quantity_usd (l2_levels (if is_buy then l2_asks b else l2_bids b))
                    < quantity_usd)"
proof -
  let ?side = "if is_buy then l2_asks b else l2_bids b"
  let ?L = "l2_levels ?side"
  obtain m where m: "get_mid_price b = Some m" "0 < m"
    using l2_mid_price_pos [OF assms(1-4)] by blast
  have pos: "\<forall>(p, q) \<in> set ?L. 0 < p \<and> 0 < q"
    using assms(1,2) l2_levels_pos [of True "l2_bids b"] l2_levels_pos [of False "l2_asks b"]
    by (simp add: l2_inv_def l2_positive_def)
  have ne: "?L \<noteq> []" using assms(3,4) by (simp add: l2_levels_def)
  have A: "0 < filled_asset quantity_usd ?L"
    using assms(5) ne pos by (rule filled_asset_pos)
  have w: "walk_levels (map snd ?side) quantity_usd 0 0
             = Inr (quantity_usd - filled_usd quantity_usd ?L,
                    filled_usd quantity_usd ?L, filled_asset quantity_usd ?L)"
    using walk_levels_eq [OF assms(5) pos, of 0 0] by (simp add: l2_levels_def)
  have ms: "map snd ?side = (if is_buy then map snd (l2_asks b) else map snd (l2_bids b))"
    by simp
  show ?thesis
    unfolding calculate_market_order_cost_def ms [symmetric] w
    using assms(5) m A by (simp add: ebind_def Let_def)
qed



lemma book_2x2:
  "l2_bids (l2_run decimal_float L2_init
      [(0, snapshot [(PyStr ''100'', PyStr ''1''), (PyStr ''99'', PyStr ''2'')]
                    [(PyStr ''101'', PyStr ''1''), (PyStr ''102'', PyStr ''2'')])])
     = [(- 100, (100, 1)), (- 99, (99, 2))]"
  "l2_asks (l2_run decimal_float L2_init
      [(0, snapshot [(PyStr ''100'', PyStr ''1''), (PyStr ''99'', PyStr ''2'')]
                    [(PyStr ''101'', PyStr ''1''), (PyStr ''102'', PyStr ''2'')])])
     = [(101, (101, 1)), (102, (102, 2))]"
  by (simp_all add: eval_defs)


subsection \<open>Greedy filling\<close>

lemma greedy_nonpos:
  "r \<le> 0 \<Longrightarrow> \<forall>c \<in> set cs. 0 \<le> c \<Longrightarrow> greedy r cs = map (\<lambda>c. 0) cs"
proof (induction cs arbitrary: r)
  case Nil
  then show ?case by simp
next
  case (Cons c cs)
  have "r - c \<le> 0" using Cons.prems by simp
  then have "greedy (r - c) cs = map (\<lambda>c. 0) cs"
    using Cons.IH Cons.prems by simp
  moreover have "min (max r 0) c = 0" using Cons.prems by (simp add: max_def)
  ultimately show ?case by simp
qed

lemma greedy_sum:
  "0 \<le> r \<Longrightarrow> \<forall>c \<in> set cs. 0 \<le> c \<Longrightarrow> sum_list (greedy r cs) = min r (sum_list cs)"
proof (induction cs arbitrary: r)
  case Nil
  then show ?case by simp
next
  case (Cons c cs)
  have c: "0 \<le> c" and cs: "\<forall>c \<in> set cs. 0 \<le> c" using Cons.prems by simp_all
  have s: "0 \<le> sum_list cs" using cs by (simp add: sum_list_nonneg)
  show ?case
  proof (cases "r \<le> c")
    case True
    then have "greedy (r - c) cs = map (\<lambda>c. 0) cs"
      using greedy_nonpos [of "r - c" cs] cs by simp
    then have "sum_list (greedy (r - c) cs) = 0" by simp
    then show ?thesis using True Cons.prems(1) s by (simp add: min_def max_def)
  next
    case False
    then have "sum_list (greedy (r - c) cs) = min (r - c) (sum_list cs)"
      using Cons.IH [of "r - c"] cs by simp
    then show ?thesis using False Cons.prems(1) by (simp add: min_def max_def)
  qed
qed

lemma filled_usd_greedy: "filled_usd r L = sum_list (greedy r (notionals L))"
  by (induction L arbitrary: r) (auto simp: notionals_def)

lemma filled_asset_greedy:
  "filled_asset r L = sum_list (map2 (\<lambda>f (p, q). f / p) (greedy r (notionals L)) L)"
  by (induction L arbitrary: r) (auto simp: notionals_def)

lemma notionals_nonneg:
  "\<forall>(p, q) \<in> set L. 0 < p \<and> 0 < q \<Longrightarrow> \<forall>c \<in> set (notionals L). 0 \<le> c"
  by (auto simp: notionals_def intro: mult_nonneg_nonneg less_imp_le)

lemma market_order_cost_greedy:
  assumes "l2_inv b" and "l2_positive b" and "l2_bids b \<noteq> []" and "l2_asks b \<noteq> []"
    and "0 < quantity_usd"
  shows "let levels = l2_levels (if is_buy then l2_asks b else l2_bids b);
             fills = greedy quantity_usd (notionals levels)
         in sorted_wrt (if is_buy then (<) else (>)) (map fst levels)
            \<and> (\<exists>c. calculate_market_order_cost b quantity_usd is_buy = Inr c
                  \<and> mo_total_cost c = sum_list fills
                  \<and> mo_total_cost c = min quantity_usd (sum_list (notionals levels))
                  \<and> mo_average_price c
                      = mo_total_cost c / sum_list (map2 (\<lambda>f (p, q). f / p) fills levels)
                  \<and> mo_not_filled_warning c = (sum_list (notionals levels) < quantity_usd))"
proof -
  let ?L = "l2_levels (if is_buy then l2_asks b else l2_bids b)"
  have pos: "\<forall>(p, q) \<in> set ?L. 0 < p \<and> 0 < q"
    using assms(1,2) l2_levels_pos [of True "l2_bids b"] l2_levels_pos [of False "l2_asks b"]
    by (simp add: l2_inv_def l2_positive_def)
  have s: "sorted_wrt (if is_buy then (<) else (>)) (map fst ?L)"
    using assms(1) l2_side_inv_asks [of "l2_asks b"] l2_side_inv_bids [of "l2_bids b"]
    by (simp add: l2_inv_def l2_levels_prices)
  have g: "filled_usd quantity_usd ?L = min quantity_usd (sum_list (notionals ?L))"
    unfolding filled_usd_greedy
    using greedy_sum [of quantity_usd "notionals ?L"] notionals_nonneg [OF pos] assms(5)
    by simp
  obtain c where c: "calculate_market_order_cost b quantity_usd is_buy = Inr c"
      "mo_total_cost c = filled_usd quantity_usd ?L"
      "mo_average_price c = filled_usd quantity_usd ?L / filled_asset quantity_usd ?L"
      "mo_not_filled_warning c = (filled_usd quantity_usd ?L < quantity_usd)"
    using calculate_market_order_cost_eq [OF assms, of is_buy] by blast
  have w: "mo_not_filled_warning c = (sum_list (notionals ?L) < quantity_usd)"
    unfolding c(4) g by (simp add: min_def)
  have "calculate_market_order_cost b quantity_usd is_buy = Inr c
        \<and> mo_total_cost c = sum_list (greedy quantity_usd (notionals ?L))
        \<and> mo_total_cost c = min quantity_usd (sum_list (notionals ?L))
        \<and> mo_average_price c
            = mo_total_cost c
              / sum_list (map2 (\<lambda>f (p, q). f / p) (greedy quantity_usd (notionals ?L)) ?L)
        \<and> mo_not_filled_warning c = (sum_list (notionals ?L) < quantity_usd)"
    using c(1,2,3) w g by (simp add: filled_usd_greedy filled_asset_greedy)
  then show ?thesis using s unfolding Let_def by blast
qed

lemma market_order_cost_one_sided:
  assumes "l2_bids b = [] \<or> l2_asks b = []"
  shows "calculate_market_order_cost b quantity_usd is_buy = Inr no_cost"
proof -
  have "get_mid_price b = None"
    using assms by (auto simp: get_mid_price_def get_best_bid_def get_best_ask_def)
  then show ?thesis by (simp add: calculate_market_order_cost_def no_cost_def)
qed

subsection \<open>The price impact loop\<close>

lemma min_num_Fl [simp]: "min_num a (Fl q) = min a q"
  by (simp add: min_num_def)

lemma take_levels_num:
  assumes "\<forall>(p, q) \<in> set items. 0 < q" and "0 \<le> r"
  shows "take_levels (num_items items) r tc =
           (r - sum_list (greedy r (map snd items)),
            tc + sum_list (map2 (\<lambda>t (p, q). t * p) (greedy r (map snd items)) items))"
  using assms
proof (induction items arbitrary: r tc)
  case Nil
  then show ?case by (simp add: num_items_def)
next
  case (Cons a items)
  obtain p q where a: "a = (p, q)" by (cases a)
  have q: "0 < q" and rest: "\<forall>(p, q) \<in> set items. 0 < q" using Cons.prems(1) a by simp_all
  have nn: "\<forall>c \<in> set (map snd items). 0 \<le> c" using rest by (auto intro: less_imp_le)
  have n: "num_items ((p, q) # items) = (p, Fl q) # num_items items"
    by (simp add: num_items_def)
  show ?case
  proof (cases "r \<le> q")
    case True
    have z: "greedy (r - q) (map snd items) = map (\<lambda>c. 0) (map snd items)"
      using True nn by (intro greedy_nonpos) simp_all
    have z0: "greedy 0 (map snd items) = map (\<lambda>c. 0) (map snd items)"
      using nn by (intro greedy_nonpos) simp_all
    have s0: "sum_list (map2 (\<lambda>t (p, q). t * p) (map (\<lambda>c. 0) (map snd items)) items) = 0"
      by (induction items) auto
    have s1: "sum_list (map (\<lambda>c. 0 :: real) (map snd items)) = 0"
      by (simp add: comp_def)
    show ?thesis
    proof (cases "r = 0")
      case True
      then show ?thesis using q z s0 s1 by (simp add: n a max_def min_def)
    next
      case False
      then have r: "0 < r" using Cons.prems(2) by simp
      have "take_levels (num_items items) 0 (tc + r * p) = (0, tc + r * p)"
        using Cons.IH [OF rest, of 0 "tc + r * p"] z0 s0 s1 by simp
      then show ?thesis
        using r True q z s0 s1 by (simp add: n a max_def min_def Let_def)
    qed
  next
    case False
    then have r: "0 < r" "q < r" using q by simp_all
    have "take_levels (num_items items) (r - q) (tc + q * p) =
           (r - q - sum_list (greedy (r - q) (map snd items)),
            tc + q * p + sum_list (map2 (\<lambda>t (p, q). t * p) (greedy (r - q) (map snd items)) items))"
      using Cons.IH [OF rest, of "r - q" "tc + q * p"] r by simp
    then show ?thesis
      using r by (simp add: n a max_def min_def Let_def algebra_simps)
  qed
qed

lemma last_num_items: "items \<noteq> [] \<Longrightarrow> fst (last (num_items items)) = fst (last items)"
  by (simp add: num_items_def last_map split: prod.splits)

lemma estimate_price_impact_num:
  assumes "ob_is_initialized b" and "ob_bids b \<noteq> []" and "ob_asks b \<noteq> []"
    and "ob_mid_price b = Some m" and "m \<noteq> 0" and "0 < order_size"
    and "(if is_buy then ob_asks b else rev (ob_bids b)) = num_items items"
    and "\<forall>(p, q) \<in> set items. 0 < q"
  shows "estimate_price_impact b order_size is_buy =
           \<bar>(sum_list (map2 (\<lambda>t (p, q). t * p) (greedy order_size (map snd items)) items)
              + (order_size - sum_list (greedy order_size (map snd items))) * fst (last items))
             / order_size - m\<bar> / m"
proof -
  let ?T = "sum_list (greedy order_size (map snd items))"
  let ?C = "sum_list (map2 (\<lambda>t (p, q). t * p) (greedy order_size (map snd items)) items)"
  have ne: "items \<noteq> []" using assms(2,3,7) by (auto simp: num_items_def split: if_splits)
  have nn: "\<forall>c \<in> set (map snd items). 0 \<le> c" using assms(8) by (auto intro: less_imp_le)
  have le: "?T \<le> order_size"
    using greedy_sum [of order_size "map snd items"] nn assms(6) by simp
  have t: "take_levels (num_items items) order_size 0 = (order_size - ?T, ?C)"
    using take_levels_num [OF assms(8), of order_size 0] assms(6) by simp
  have i: "(if is_buy then ob_asks b else rev (ob_bids b)) = num_items items"
    by (rule assms(7))
  have c: "(if 0 < order_size - ?T then ?C + (order_size - ?T) * fst (last (num_items items))
            else ?C) = ?C + (order_size - ?T) * fst (last items)"
    using le last_num_items [OF ne] by auto
  have "estimate_price_impact b order_size is_buy =
          (let items' = (if is_buy then ob_asks b else rev (ob_bids b));
               (remaining_size, total_cost) = take_levels items' order_size 0;
               total_cost' = (if remaining_size > 0
                              then total_cost + remaining_size * fst (last items')
                              else total_cost)
           in \<bar>total_cost' / order_size - m\<bar> / m)"
    using assms(1-6) by (simp add: estimate_price_impact_def Let_def)
  also have "\<dots> = \<bar>(?C + (order_size - ?T) * fst (last items)) / order_size - m\<bar> / m"
    unfolding i Let_def t using c by simp
  finally show ?thesis .
qed

text \<open>
  Claim C4, as stated, fails for \<open>calculate_market_order_cost\<close>: when the side is
  exhausted the remainder is not costed at all. With one bid of 1 at 100 and one ask
  of 1 at 101, a buy order of 202 USD fills 101 USD and leaves 101 USD; costed at the
  last available price the total would be 202, but the total cost returned is 101
  (the warning ``Order not completely filled'' is logged).
\<close>

theorem remainder_not_costed_counterexample:
  "calculate_market_order_cost
     (l2_run decimal_float L2_init
        [(0, snapshot [(PyStr ''100'', PyStr ''1'')] [(PyStr ''101'', PyStr ''1'')])])
     202 True
   = Inr \<lparr> mo_total_cost = 101, mo_average_price = 101,
           mo_slippage_percentage = 100 / 201, mo_not_filled_warning = True \<rparr>"
  by (simp add: calculate_market_order_cost_def eval_defs)

text \<open>
  Claim C4, amended. For every two-sided L2 book that satisfies the invariant of the
  sides and has positive prices, and every \<open>quantity_usd > 0\<close>,
  \<open>calculate_market_order_cost\<close> walks the relevant side from the best price outward
  (asks in ascending, bids in descending price order) and fills greedily: each level
  gives what is still unfilled, up to its notional. The total cost is the sum of the
  fills, that is the smaller of \<open>quantity_usd\<close> and the notional of the whole side: if
  the side is exhausted before the notional is filled, the remainder is not costed, and
  the warning is logged exactly then (a recorded partial fill, not an error). The
  average price returned is the total cost divided by the base-asset quantity filled.
  On a book with an empty side the function returns zeros. \<open>_estimate_price_impact\<close> of
  order\_book.py, which walks the side greedily in base-asset units, does cost the
  remainder at the last available price, and divides the cost by the requested size.
\<close>

theorem market_order_cost_walk:
  "(l2_inv l2 \<and> l2_positive l2 \<and> l2_bids l2 \<noteq> [] \<and> l2_asks l2 \<noteq> [] \<and> 0 < quantity_usd \<longrightarrow>
      (let levels = l2_levels (if is_buy then l2_asks l2 else l2_bids l2);
           fills = greedy quantity_usd (notionals levels)
       in sorted_wrt (if is_buy then (<) else (>)) (map fst levels)
          \<and> (\<exists>c. calculate_market_order_cost l2 quantity_usd is_buy = Inr c
                \<and> mo_total_cost c = sum_list fills
                \<and> mo_total_cost c = min quantity_usd (sum_list (notionals levels))
                \<and> mo_average_price c
                    = mo_total_cost c / sum_list (map2 (\<lambda>f (p, q). f / p) fills levels)
                \<and> mo_not_filled_warning c = (sum_list (notionals levels) < quantity_usd))))
   \<and> (l2_bids l2 = [] \<or> l2_asks l2 = [] \<longrightarrow>
        calculate_market_order_cost l2 quantity_usd is_buy = Inr no_cost)
   \<and> (ob_is_initialized b \<and> ob_bids b \<noteq> [] \<and> ob_asks b \<noteq> [] \<and> ob_mid_price b = Some m
        \<and> m \<noteq> 0 \<and> 0 < order_size
        \<and> (if is_buy then ob_asks b else rev (ob_bids b)) = num_items items
        \<and> (\<forall>(p, q) \<in> set items. 0 < q) \<longrightarrow>
        estimate_price_impact b order_size is_buy =
          \<bar>(sum_list (map2 (\<lambda>t (p, q). t * p) (greedy order_size (map snd items)) items)
             + (order_size - sum_list (greedy order_size (map snd items))) * fst (last items))
            / order_size - m\<bar> / m)"
  using market_order_cost_greedy [of l2 quantity_usd is_buy]
        market_order_cost_one_sided [of l2 quantity_usd is_buy]
        estimate_price_impact_num [of b m order_size is_buy items]
  by blast

text \<open>The witness: bids 100 (1) and 99 (2), asks 101 (1) and 102 (2). A buy of 203 USD
  takes 101 USD at 101 and 102 USD at 102; a buy of 1000 USD exhausts the asks, whose
  notional is 305. In the book of order\_book.py with the same levels, a buy of 5 units
  takes the 3 units there are for 305 and costs the remaining 2 units at 102.\<close>

theorem market_order_cost_walk_witness:
  "l2_inv (l2_run decimal_float L2_init
      [(0, snapshot [(PyStr ''100'', PyStr ''1''), (PyStr ''99'', PyStr ''2'')]
                    [(PyStr ''101'', PyStr ''1''), (PyStr ''102'', PyStr ''2'')])])
   \<and> l2_positive (l2_run decimal_float L2_init
      [(0, snapshot [(PyStr ''100'', PyStr ''1''), (PyStr ''99'', PyStr ''2'')]
                    [(PyStr ''101'', PyStr ''1''), (PyStr ''102'', PyStr ''2'')])])
   \<and> greedy 203 (notionals [(101, 1), (102, 2)]) = [101, 102]
   \<and> calculate_market_order_cost (l2_run decimal_float L2_init
      [(0, snapshot [(PyStr ''100'', PyStr ''1''), (PyStr ''99'', PyStr ''2'')]
                    [(PyStr ''101'', PyStr ''1''), (PyStr ''102'', PyStr ''2'')])]) 203 True
       = Inr \<lparr> mo_total_cost = 203, mo_average_price = 203 / 2,
               mo_slippage_percentage = 200 / 201, mo_not_filled_warning = False \<rparr>
   \<and> (\<exists>c. calculate_market_order_cost (l2_run decimal_float L2_init
      [(0, snapshot [(PyStr ''100'', PyStr ''1''), (PyStr ''99'', PyStr ''2'')]
                    [(PyStr ''101'', PyStr ''1''), (PyStr ''102'', PyStr ''2'')])]) 1000 True
          = Inr c
        \<and> mo_total_cost c = 305 \<and> mo_not_filled_warning c)
   \<and> calculate_market_order_cost L2_init 203 True = Inr no_cost
   \<and> estimate_price_impact
        \<lparr> ob_symbol = ''BTC-USDT'', ob_max_depth = 20,
          ob_asks = [(101, Fl 1), (102, Fl 2)], ob_bids = [(99, Fl 2), (100, Fl 1)],
          ob_last_update_time = PyNum 0, ob_is_initialized = True,
          ob_mid_price = Some (201 / 2) \<rparr> 5 True
       = \<bar>(305 + 2 * 102) / 5 - 201 / 2\<bar> / (201 / 2)"
proof -
  let ?B = "l2_run decimal_float L2_init
      [(0, snapshot [(PyStr ''100'', PyStr ''1''), (PyStr ''99'', PyStr ''2'')]
                    [(PyStr ''101'', PyStr ''1''), (PyStr ''102'', PyStr ''2'')])]"
  let ?O = "\<lparr> ob_symbol = ''BTC-USDT'', ob_max_depth = 20,
          ob_asks = [(101, Fl 1), (102, Fl 2)], ob_bids = [(99, Fl 2), (100, Fl 1)],
          ob_last_update_time = PyNum 0, ob_is_initialized = True,
          ob_mid_price = Some (201 / 2) \<rparr>"
  have i: "l2_inv ?B" by (rule l2_run_inv) (rule l2_inv_init)
  have p: "l2_positive ?B" by (simp add: l2_positive_def book_2x2 l2_prices_def)
  have ne: "l2_bids ?B \<noteq> []" "l2_asks ?B \<noteq> []" by (simp_all add: book_2x2)
  have lv: "l2_levels (l2_asks ?B) = [(101, 1), (102, 2)]"
    by (simp add: book_2x2 l2_levels_def)
  have g: "greedy 203 (notionals [(101, 1), (102, 2)]) = [101, 102]"
    by (simp add: notionals_def)
  have m: "get_mid_price ?B = Some (201 / 2)"
    by (simp add: get_mid_price_def get_best_bid_def get_best_ask_def book_2x2)
  have v: "calculate_market_order_cost ?B 203 True
       = Inr \<lparr> mo_total_cost = 203, mo_average_price = 203 / 2,
               mo_slippage_percentage = 200 / 201, mo_not_filled_warning = False \<rparr>"
    by (simp add: calculate_market_order_cost_def m book_2x2 ebind_def Let_def)
  have "let levels = l2_levels (if True then l2_asks ?B else l2_bids ?B);
           fills = greedy 1000 (notionals levels)
       in sorted_wrt (if True then (<) else (>)) (map fst levels)
          \<and> (\<exists>c. calculate_market_order_cost ?B 1000 True = Inr c
                \<and> mo_total_cost c = sum_list fills
                \<and> mo_total_cost c = min 1000 (sum_list (notionals levels))
                \<and> mo_average_price c
                    = mo_total_cost c / sum_list (map2 (\<lambda>f (p, q). f / p) fills levels)
                \<and> mo_not_filled_warning c = (sum_list (notionals levels) < 1000))"
    using market_order_cost_walk [of ?B 1000 True, THEN conjunct1] i p ne by simp
  then have w: "\<exists>c. calculate_market_order_cost ?B 1000 True = Inr c
        \<and> mo_total_cost c = 305 \<and> mo_not_filled_warning c"
    by (auto simp: Let_def lv notionals_def)
  have e: "calculate_market_order_cost L2_init 203 True = Inr no_cost"
    using market_order_cost_walk [of L2_init 203 True, THEN conjunct2, THEN conjunct1]
    by (simp add: L2_init_def)
  have ni: "num_items [(101, 1), (102, 2)] = [(101, Fl 1), (102, Fl 2)]"
    by (simp add: num_items_def)
  have "estimate_price_impact ?O 5 True =
          \<bar>(sum_list (map2 (\<lambda>t (p, q). t * p) (greedy 5 (map snd [(101, 1), (102, 2 :: real)]))
                         [(101, 1), (102, 2)])
             + (5 - sum_list (greedy 5 (map snd [(101 :: real, 1), (102, 2 :: real)])))
                 * fst (last [(101 :: real, 1 :: real), (102, 2)]))
            / 5 - 201 / 2\<bar> / (201 / 2)"
    using market_order_cost_walk [of _ _ True ?O "201 / 2" 5 "[(101, 1), (102, 2)]",
            THEN conjunct2, THEN conjunct2]
    by (simp add: ni)
  then have x: "estimate_price_impact ?O 5 True = \<bar>(305 + 2 * 102) / 5 - 201 / 2\<bar> / (201 / 2)"
    by simp
  from i p g v w e x show ?thesis by (intro conjI)
qed

end
